theory Spec2Isabelle
  imports Complex_Main "HOL-Library.Sublist" "HOL-Library.AList"
begin

section \<open>Python values, exceptions and the library boundary\<close>

text \<open>
  The two modules \<^verbatim>\<open>health-diagnosis.py\<close> and \<^verbatim>\<open>demand-forecasting.py\<close> are glue
  around numpy, pandas, scikit-learn, Keras, boto3 and the json module. The glue is
  embedded function by function. A call into a library is either a field of the record
  \<open>env\<close> below, or a method of a library object, and such an object is represented by
  the behaviour of its methods (a fitted scaler by its \<open>transform\<close>, a classifier by its
  \<open>predict\<close>, a Keras model by its \<open>predict\<close> and \<open>save\<close>). The one library object
  that the code refits in place, the \<^verbatim>\<open>MinMaxScaler\<close> of the forecasting module, is
  represented by the attributes a fit sets on it, and its methods are fields of \<open>env\<close>
  that take the scaler. An exception is a value
  of type \<open>exn\<close> that carries \<^verbatim>\<open>str(e)\<close>; a computation that may raise returns
  \<open>exn + 'a\<close> with \<open>Inl\<close> for the raise. The values of \<open>exn\<close> are instances of
  \<^verbatim>\<open>Exception\<close>, which is what the steps of the two modules raise; an interrupt of the
  interpreter is not among them. Texts of messages raised inside a library are
  abbreviated. Calls of the logger are left out: they neither raise nor return.

  Python floats are represented by the rationals they denote. Comparison and maximum
  of floats are exact; an arithmetic operation rounds its exact result, which is the
  function \<open>rnd\<close> of the environment (any function: no theorem depends on how it rounds).
  A float literal such as \<^verbatim>\<open>0.8\<close> is the rounded decimal, \<open>float_literal env (8 / 10)\<close>.
\<close>

datatype exn =
    ValueError string
  | KeyError string
  | TypeError string
  | AttributeError string
  | IndexError string
  | NotFittedError string
  | LibraryError string

text \<open>\<^verbatim>\<open>str(e)\<close>\<close>

fun str_exn :: "exn \<Rightarrow> string" where
  "str_exn (ValueError m) = m"
| "str_exn (KeyError m) = m"
| "str_exn (TypeError m) = m"
| "str_exn (AttributeError m) = m"
| "str_exn (IndexError m) = m"
| "str_exn (NotFittedError m) = m"
| "str_exn (LibraryError m) = m"

text \<open>
  The values \<^verbatim>\<open>json.loads\<close> produces, which are also the cells of the data frames
  built from them.
\<close>

datatype json =
    JNull
  | JBool bool
  | JInt int
  | JFloat rat
  | JNaN
  | JStr string
  | JArr "json list"
  | JObj "(string \<times> json) list"

type_synonym matrix = "rat list list"

fun type_name :: "json \<Rightarrow> string" where
  "type_name JNull = ''NoneType''"
| "type_name (JBool b) = ''bool''"
| "type_name (JInt i) = ''int''"
| "type_name (JFloat x) = ''float''"
| "type_name JNaN = ''float''"
| "type_name (JStr s) = ''str''"
| "type_name (JArr xs) = ''list''"
| "type_name (JObj kvs) = ''dict''"

definition quoted :: "string \<Rightarrow> string" where
  "quoted s = [CHR 0x27] @ s @ [CHR 0x27]"

definition no_attribute :: "json \<Rightarrow> string \<Rightarrow> exn" where
  "no_attribute v a =
     AttributeError (quoted (type_name v) @ '' object has no attribute '' @ quoted a)"

text \<open>\<^verbatim>\<open>v[key]\<close> for a string key.\<close>

fun subscript :: "json \<Rightarrow> string \<Rightarrow> exn + json" where
  "subscript (JObj kvs) key =
     (case map_of kvs key of Some v \<Rightarrow> Inr v | None \<Rightarrow> Inl (KeyError (quoted key)))"
| "subscript (JArr xs) key = Inl (TypeError ''list indices must be integers or slices, not str'')"
| "subscript (JStr s) key = Inl (TypeError ''string indices must be integers'')"
| "subscript v key = Inl (TypeError (quoted (type_name v) @ '' object is not subscriptable''))"

text \<open>\<^verbatim>\<open>d.get(key, dflt)\<close> of a dict, and of a row of a data frame.\<close>

definition dict_get :: "(string \<times> json) list \<Rightarrow> string \<Rightarrow> json \<Rightarrow> json" where
  "dict_get d key dflt = (case map_of d key of Some v \<Rightarrow> v | None \<Rightarrow> dflt)"

text \<open>Sequencing of computations that may raise: the first raise wins.\<close>

fun mapM :: "('a \<Rightarrow> exn + 'b) \<Rightarrow> 'a list \<Rightarrow> exn + 'b list" where
  "mapM f [] = Inr []"
| "mapM f (x # xs) =
     (case f x of
        Inl e \<Rightarrow> Inl e
      | Inr y \<Rightarrow> (case mapM f xs of Inl e \<Rightarrow> Inl e | Inr ys \<Rightarrow> Inr (y # ys)))"

subsection \<open>Library objects\<close>

text \<open>
  A pandas DataFrame of the forecasting module, column by column: \<^verbatim>\<open>data[c]\<close> reads a
  column, \<^verbatim>\<open>data[c] = v\<close> replaces it in place or appends it.
\<close>

record table =
  nrows :: nat
  cols :: "(string \<times> json list) list"

text \<open>
  A \<^verbatim>\<open>MinMaxScaler\<close> is the attributes a fit has set on it, each an array under its
  name; a fresh scaler has none. Its methods are library code, fields of \<open>env\<close> below,
  that read these attributes and replace them.
\<close>

type_synonym minmax_scaler = "(string \<times> rat list) list"

definition not_fitted :: "string \<Rightarrow> exn" where
  "not_fitted cls =
     NotFittedError (''This '' @ cls @ '' instance is not fitted yet. Call '' @ quoted ''fit''
                     @ '' with appropriate arguments before using this estimator.'')"

definition MinMaxScaler :: minmax_scaler where
  "MinMaxScaler = []"

text \<open>
  A Keras model: \<open>keras_predict m w\<close> is \<^verbatim>\<open>m.predict(w, verbose=0)[0, 0]\<close> for a batch
  holding the one window \<open>w\<close>; \<open>keras_save m path\<close> is \<^verbatim>\<open>m.save(path)\<close>, \<open>None\<close> when
  it returns.
\<close>

record keras_model =
  keras_predict :: "matrix \<Rightarrow> exn + rat"
  keras_save :: "string \<Rightarrow> exn option"

text \<open>The effects on the outside world that the forecasting module can have.\<close>

datatype effect =
    Predicted matrix
  | LocalWrite string
  | S3Upload string string string
  | S3Download string string string
  | LocalRead string

record env =
  json_loads :: "string \<Rightarrow> exn + json"
  json_dumps :: "json \<Rightarrow> string"
  now_isoformat :: string
  boto3_client :: "string \<Rightarrow> exn option"
  py_str :: "json \<Rightarrow> string"
  rnd :: "rat \<Rightarrow> rat"
  np_argsort :: "rat list \<Rightarrow> nat list"
  dt_dayofweek :: "json list \<Rightarrow> exn + json list"
  dt_month :: "json list \<Rightarrow> exn + json list"
  fit_transform :: "minmax_scaler \<Rightarrow> json list list \<Rightarrow> minmax_scaler \<times> (exn + matrix)"
  inverse_transform :: "minmax_scaler \<Rightarrow> matrix \<Rightarrow> exn + matrix"
  pd_DataFrame :: "json \<Rightarrow> exn + table"
  download_file :: "string \<Rightarrow> string \<Rightarrow> string \<Rightarrow> exn option"
  upload_file :: "string \<Rightarrow> string \<Rightarrow> string \<Rightarrow> exn option"
  load_keras_model :: "string \<Rightarrow> exn + keras_model"

text \<open>
  \<open>json_loads\<close>, \<open>json_dumps\<close>: the json module on a string and on a serialisable value.
  \<open>now_isoformat\<close>: \<^verbatim>\<open>datetime.now().isoformat()\<close>. \<open>boto3_client\<close>: creating a client,
  \<open>None\<close> when it succeeds. \<open>py_str\<close>: \<^verbatim>\<open>str(v)\<close> of a value that is not a string.
  \<open>np_argsort\<close>: \<^verbatim>\<open>np.argsort\<close>. \<open>dt_dayofweek\<close> and \<open>dt_month\<close>:
  \<^verbatim>\<open>pd.to_datetime(column).dt.dayofweek\<close> and \<^verbatim>\<open>.dt.month\<close>. \<open>fit_transform\<close>:
  \<^verbatim>\<open>scaler.fit_transform(X)\<close> on the scaler it is given; it returns the scaler as the
  call leaves it, also when it raises, with the scaled rows. \<open>inverse_transform\<close>:
  \<^verbatim>\<open>scaler.inverse_transform(X)\<close>. \<open>pd_DataFrame\<close>: the DataFrame constructor on a decoded
  JSON value. \<open>download_file\<close>, \<open>upload_file\<close>: the S3 client. \<open>load_keras_model\<close>:
  \<^verbatim>\<open>tf.keras.models.load_model\<close>.
\<close>

definition float_literal :: "env \<Rightarrow> rat \<Rightarrow> rat" where
  "float_literal env q = rnd env q"

text \<open>\<^verbatim>\<open>json.loads(v)\<close>: the argument has to be a string.\<close>

definition loads :: "env \<Rightarrow> json \<Rightarrow> exn + json" where
  "loads env v =
     (case v of
        JStr s \<Rightarrow> json_loads env s
      | _ \<Rightarrow> Inl (TypeError (''the JSON object must be str, bytes or bytearray, not ''
                             @ type_name v)))"

text \<open>The response a handler returns.\<close>

record response =
  statusCode :: int
  body :: string

text \<open>
  \<^verbatim>\<open>try: ... except Exception as e: ...\<close>: the handler block runs when the body raises,
  and may itself raise.
\<close>

definition try_except :: "(exn + 'a) \<Rightarrow> (exn \<Rightarrow> exn + 'a) \<Rightarrow> exn + 'a" where
  "try_except block handler = (case block of Inl e \<Rightarrow> handler e | Inr r \<Rightarrow> Inr r)"

definition error_response :: "env \<Rightarrow> exn \<Rightarrow> response" where
  "error_response env e =
     \<lparr>statusCode = 500,
      body = json_dumps env
               (JObj [(''error'', JStr (str_exn e)), (''timestamp'', JStr (now_isoformat env))])\<rparr>"

section \<open>health-diagnosis.py\<close>

subsection \<open>Symptom keywords\<close>

definition symptom_keywords :: "(string \<times> string list) list" where
  "symptom_keywords =
     [(''fever'', [''fever'', ''temperature'', ''hot'', ''burning'']),
      (''cough'', [''cough'', ''coughing'', ''throat'']),
      (''headache'', [''headache'', ''head pain'', ''migraine'']),
      (''fatigue'', [''tired'', ''fatigue'', ''weakness'', ''exhausted'']),
      (''nausea'', [''nausea'', ''vomiting'', ''sick'']),
      (''diarrhea'', [''diarrhea'', ''loose stool'', ''stomach'']),
      (''chest_pain'', [''chest pain'', ''chest'', ''heart'']),
      (''shortness_breath'', [''breath'', ''breathing'', ''respiratory'']),
      (''dizziness'', [''dizzy'', ''dizziness'', ''lightheaded'']),
      (''rash'', [''rash'', ''skin'', ''itching'', ''spots'']),
      (''joint_pain'', [''joint'', ''arthritis'', ''stiff'']),
      (''abdominal_pain'', [''abdominal'', ''stomach pain'', ''belly'']),
      (''back_pain'', [''back pain'', ''spine'', ''lower back'']),
      (''muscle_pain'', [''muscle'', ''ache'', ''sore'']),
      (''loss_appetite'', [''appetite'', ''eating'', ''hunger''])]"

text \<open>
  \<^verbatim>\<open>str.lower()\<close> on texts whose code points are below 256 (one \<open>char\<close> each): the
  upper-case letters there are A to Z and the Latin-1 letters 192 to 222 without the
  multiplication sign 215; each maps to the code point 32 above it.
\<close>

definition lower_char :: "char \<Rightarrow> char" where
  "lower_char c =
     (let n = (of_char c :: nat)
      in if (65 \<le> n \<and> n \<le> 90) \<or> (192 \<le> n \<and> n \<le> 214) \<or> (216 \<le> n \<and> n \<le> 222)
         then char_of (n + 32) else c)"

definition lower :: "string \<Rightarrow> string" where
  "lower s = map lower_char s"

text \<open>\<^verbatim>\<open>keyword in text\<close> on strings: the keyword starts at some position of the text.\<close>

fun str_in :: "string \<Rightarrow> string \<Rightarrow> bool" where
  "str_in kw [] = (kw = [])"
| "str_in kw (c # cs) = (prefix kw (c # cs) \<or> str_in kw cs)"

definition preprocess_symptoms :: "string \<Rightarrow> (string \<times> int) list" where
  "preprocess_symptoms symptoms_text =
     (let symptoms_lower = lower symptoms_text
      in fold (\<lambda>(symptom, keywords) features.
                 AList.update symptom
                   (if list_ex (\<lambda>keyword. str_in keyword symptoms_lower) keywords
                    then 1 else 0)
                   features)
           symptom_keywords [])"

subsection \<open>Patient data frames\<close>

text \<open>
  A pandas DataFrame of the diagnosis module, row by row: every record has one cell
  per column. \<^verbatim>\<open>pd.DataFrame(dicts)\<close> takes its columns from the keys in their order of
  first appearance and fills a missing cell with NaN.
\<close>

record frame =
  columns :: "string list"
  records :: "json list list"

definition DataFrame :: "(string \<times> json) list list \<Rightarrow> frame" where
  "DataFrame dicts =
     (let keys = remdups (concat (map (map fst) dicts))
      in \<lparr>columns = keys, records = map (\<lambda>d. map (\<lambda>k. dict_get d k JNaN) keys) dicts\<rparr>)"

definition iterrows :: "frame \<Rightarrow> (string \<times> json) list list" where
  "iterrows data = map (zip (columns data)) (records data)"

text \<open>\<^verbatim>\<open>v.lower()\<close> on a cell: only a string has the method.\<close>

definition lower_of :: "json \<Rightarrow> exn + string" where
  "lower_of v = (case v of JStr s \<Rightarrow> Inr (lower s) | _ \<Rightarrow> Inl (no_attribute v ''lower''))"

definition str_of :: "env \<Rightarrow> json \<Rightarrow> string" where
  "str_of env v = (case v of JStr s \<Rightarrow> s | _ \<Rightarrow> py_str env v)"

definition medical_conditions :: "string list" where
  "medical_conditions = [''diabetes'', ''hypertension'', ''heart_disease'', ''asthma'']"

definition vitals :: "string list" where
  "vitals = [''temperature'', ''blood_pressure_systolic'', ''blood_pressure_diastolic'',
             ''heart_rate'', ''respiratory_rate'']"

definition flag :: "bool \<Rightarrow> json" where
  "flag b = JInt (if b then 1 else 0)"

subsection \<open>Estimators and the model object\<close>

text \<open>
  A classifier of scikit-learn or XGBoost is its \<open>predict\<close>, from the selected features
  to one encoded label per sample, and its \<open>predict_proba\<close>, when it has the method,
  to one row of class probabilities per sample.
\<close>

record classifier =
  clf_predict :: "matrix \<Rightarrow> exn + int list"
  clf_predict_proba :: "(matrix \<Rightarrow> exn + matrix) option"

record standard_scaler =
  transform :: "frame \<Rightarrow> exn + matrix"

record select_k_best =
  selector_transform :: "matrix \<Rightarrow> exn + matrix"

record label_encoder_obj =
  inverse_transform_label :: "int \<Rightarrow> exn + string"

record health_model =
  models :: "(string \<times> classifier) list"
  scaler :: standard_scaler
  label_encoder :: label_encoder_obj
  feature_selector :: select_k_best
  feature_names :: "string list option"
  diagnosis_classes :: "string list option"

text \<open>Estimators as their constructors return them: every method raises until a fit.\<close>

definition unfitted_classifier :: "string \<Rightarrow> classifier" where
  "unfitted_classifier cls =
     \<lparr>clf_predict = (\<lambda>X. Inl (not_fitted cls)),
      clf_predict_proba = Some (\<lambda>X. Inl (not_fitted cls))\<rparr>"

definition HealthDiagnosisModel :: "env \<Rightarrow> exn + health_model" where
  "HealthDiagnosisModel env =
     (case boto3_client env ''s3'' of
        Some e \<Rightarrow> Inl e
      | None \<Rightarrow>
          Inr \<lparr>models =
                 [(''random_forest'', unfitted_classifier ''RandomForestClassifier''),
                  (''gradient_boosting'', unfitted_classifier ''GradientBoostingClassifier''),
                  (''xgboost'', unfitted_classifier ''XGBClassifier'')],
               scaler = \<lparr>transform = (\<lambda>X. Inl (not_fitted ''StandardScaler''))\<rparr>,
               label_encoder =
                 \<lparr>inverse_transform_label = (\<lambda>y. Inl (not_fitted ''LabelEncoder''))\<rparr>,
               feature_selector =
                 \<lparr>selector_transform = (\<lambda>X. Inl (not_fitted ''SelectKBest''))\<rparr>,
               feature_names = None,
               diagnosis_classes = None\<rparr>)"

subsection \<open>Feature preparation\<close>

text \<open>
  \<open>prepare_features\<close> is a method of the model and gets a data frame: the pair of the
  two objects is threaded through its statements, and every statement hands on the
  pair as it leaves it. The body of the loop, for one row:
\<close>

definition feature_vector ::
  "env \<Rightarrow> health_model \<times> frame \<Rightarrow> (string \<times> json) list \<Rightarrow>
     (health_model \<times> frame) \<times> (exn + (string \<times> json) list)" where
  "feature_vector env st row =
     (case lower_of (dict_get row ''gender'' (JStr '''')) of
        Inl e \<Rightarrow> (st, Inl e)
      | Inr gender \<Rightarrow>
          (let demographics =
                 [(''age'', dict_get row ''age'' (JInt 0)),
                  (''gender_male'', flag (gender = ''male'')),
                  (''gender_female'', flag (gender = ''female''))]
           in case (if ''symptoms'' \<in> fst ` set row
                    then (case dict_get row ''symptoms'' JNull of
                            JStr s \<Rightarrow>
                              Inr (fold (\<lambda>(k, v). AList.update k (JInt v))
                                     (preprocess_symptoms s) demographics)
                          | v \<Rightarrow> Inl (no_attribute v ''lower''))
                    else Inr demographics) of
                Inl e \<Rightarrow> (st, Inl e)
              | Inr with_symptoms \<Rightarrow>
                  (let history = lower (str_of env (dict_get row ''medical_history'' (JStr '''')));
                       with_history =
                         fold (\<lambda>condition.
                                 AList.update (''history_'' @ condition)
                                   (flag (str_in condition history)))
                           medical_conditions with_symptoms
                   in (st, Inr (fold (\<lambda>vital. AList.update vital (dict_get row vital (JInt 0)))
                                  vitals with_history)))))"

text \<open>The loop over the rows; \<open>features\<close> is the list the loop appends to.\<close>

fun feature_rows ::
  "env \<Rightarrow> health_model \<times> frame \<Rightarrow> (string \<times> json) list list \<Rightarrow> (string \<times> json) list list \<Rightarrow>
     (health_model \<times> frame) \<times> (exn + (string \<times> json) list list)" where
  "feature_rows env st [] features = (st, Inr features)"
| "feature_rows env st (row # rows) features =
     (case feature_vector env st row of
        (st', Inl e) \<Rightarrow> (st', Inl e)
      | (st', Inr vector) \<Rightarrow> feature_rows env st' rows (features @ [vector]))"

definition prepare_features ::
  "env \<Rightarrow> health_model \<Rightarrow> frame \<Rightarrow> (health_model \<times> frame) \<times> (exn + frame)" where
  "prepare_features env self data =
     (case feature_rows env (self, data) (iterrows data) [] of
        (st, Inl e) \<Rightarrow> (st, Inl e)
      | (st, Inr features) \<Rightarrow> (st, Inr (DataFrame features)))"

subsection \<open>The ensemble\<close>

text \<open>
  \<^verbatim>\<open>np.unique(votes, return_counts=True)\<close>: the distinct votes in increasing order,
  each with the number of times it occurs.
\<close>

definition np_unique_counts :: "int list \<Rightarrow> int list \<times> nat list" where
  "np_unique_counts votes =
     (let unique = sort (remdups votes) in (unique, map (count_list votes) unique))"

text \<open>\<^verbatim>\<open>np.argmax\<close>: the first position of the largest entry.\<close>

fun argmax_scan :: "nat list \<Rightarrow> nat \<Rightarrow> nat \<Rightarrow> nat \<Rightarrow> nat" where
  "argmax_scan [] best besti i = besti"
| "argmax_scan (c # cs) best besti i =
     (if best < c then argmax_scan cs c i (Suc i) else argmax_scan cs best besti (Suc i))"

fun np_argmax :: "nat list \<Rightarrow> exn + nat" where
  "np_argmax [] = Inl (ValueError ''attempt to get argmax of an empty sequence'')"
| "np_argmax (c # cs) = Inr (argmax_scan cs c 0 1)"

definition majority_vote :: "int list \<Rightarrow> exn + int" where
  "majority_vote votes =
     (case np_unique_counts votes of
        (unique, counts) \<Rightarrow>
          (case np_argmax counts of Inl e \<Rightarrow> Inl e | Inr j \<Rightarrow> Inr (unique ! j)))"

text \<open>
  \<^verbatim>\<open>np.array(predictions)\<close> of one-dimensional arrays is two-dimensional only when they
  have one length; \<open>shape1\<close> is \<^verbatim>\<open>predictions.shape[1]\<close>.
\<close>

definition np_array :: "'a list list \<Rightarrow> exn + 'a list list" where
  "np_array rows =
     (if \<forall>r \<in> set rows. length r = length (hd rows) then Inr rows
      else Inl (ValueError ''setting an array element with a sequence. The requested array has an inhomogeneous shape''))"

definition shape1 :: "'a list list \<Rightarrow> exn + nat" where
  "shape1 rows =
     (case rows of [] \<Rightarrow> Inl (IndexError ''tuple index out of range'') | r # _ \<Rightarrow> Inr (length r))"

definition predict_ensemble :: "health_model \<Rightarrow> frame \<Rightarrow> exn + int list" where
  "predict_ensemble self X =
     (if models self = [] then Inl (ValueError ''Models not trained'')
      else case transform (scaler self) X of
        Inl e \<Rightarrow> Inl e
      | Inr X_scaled \<Rightarrow>
      (case selector_transform (feature_selector self) X_scaled of
        Inl e \<Rightarrow> Inl e
      | Inr X_selected \<Rightarrow>
      (case mapM (\<lambda>(name, model). clf_predict model X_selected) (models self) of
        Inl e \<Rightarrow> Inl e
      | Inr preds \<Rightarrow>
      (case np_array preds of
        Inl e \<Rightarrow> Inl e
      | Inr predictions \<Rightarrow>
      (case shape1 predictions of
        Inl e \<Rightarrow> Inl e
      | Inr n \<Rightarrow> mapM (\<lambda>i. majority_vote (map (\<lambda>p. p ! i) predictions)) [0..<n])))))"

text \<open>
  \<^verbatim>\<open>np.mean(all_probas, axis=0)\<close>: the matrices are added entry by entry from the first
  to the last and the sum is divided by their number. Without any matrix the result is
  the scalar NaN (with a warning); matrices of different shapes do not form an array.
\<close>

datatype ndarray = Scalar_nan | Array2 matrix

definition add_entries :: "env \<Rightarrow> matrix \<Rightarrow> matrix \<Rightarrow> matrix" where
  "add_entries env A B = map2 (map2 (\<lambda>a b. rnd env (a + b))) A B"

definition np_mean_axis0 :: "env \<Rightarrow> matrix list \<Rightarrow> exn + ndarray" where
  "np_mean_axis0 env all_probas =
     (case all_probas of
        [] \<Rightarrow> Inr Scalar_nan
      | P # Ps \<Rightarrow>
          if \<forall>Q \<in> set Ps. map length Q = map length P
          then Inr (Array2 (map (map (\<lambda>s. rnd env (s / of_nat (length all_probas))))
                             (foldl (add_entries env) P Ps)))
          else Inl (ValueError ''setting an array element with a sequence. The requested array has an inhomogeneous shape''))"

definition predict_proba_ensemble :: "env \<Rightarrow> health_model \<Rightarrow> frame \<Rightarrow> exn + ndarray" where
  "predict_proba_ensemble env self X =
     (if models self = [] then Inl (ValueError ''Models not trained'')
      else case transform (scaler self) X of
        Inl e \<Rightarrow> Inl e
      | Inr X_scaled \<Rightarrow>
      (case selector_transform (feature_selector self) X_scaled of
        Inl e \<Rightarrow> Inl e
      | Inr X_selected \<Rightarrow>
      (case mapM (\<lambda>proba. proba X_selected)
              (List.map_filter (\<lambda>(name, model). clf_predict_proba model) (models self)) of
        Inl e \<Rightarrow> Inl e
      | Inr all_probas \<Rightarrow> np_mean_axis0 env all_probas)))"

subsection \<open>Diagnosis\<close>

record diagnosis =
  primary_diagnosis :: string
  confidence :: rat
  top_diagnoses :: "(string \<times> rat) list"
  risk_level :: string

datatype patient_data = Dict "(string \<times> json) list" | Frame frame | Other json

datatype diagnose_result = One diagnosis | Many "diagnosis list"

text \<open>\<^verbatim>\<open>np.max(proba)\<close>\<close>

fun np_max :: "rat list \<Rightarrow> exn + rat" where
  "np_max [] = Inl (ValueError ''zero-size array to reduction operation maximum which has no identity'')"
| "np_max (p # ps) = Inr (fold max ps p)"

text \<open>\<^verbatim>\<open>proba[idx]\<close>\<close>

definition item :: "rat list \<Rightarrow> nat \<Rightarrow> exn + rat" where
  "item proba idx =
     (if idx < length proba then Inr (proba ! idx)
      else Inl (IndexError ''index out of bounds''))"

definition diagnose_one :: "env \<Rightarrow> health_model \<Rightarrow> int \<times> rat list \<Rightarrow> exn + diagnosis" where
  "diagnose_one env self pp =
     (case pp of (pred, proba) \<Rightarrow>
      (case inverse_transform_label (label_encoder self) pred of
        Inl e \<Rightarrow> Inl e
      | Inr diag \<Rightarrow>
      (case np_max proba of
        Inl e \<Rightarrow> Inl e
      | Inr conf \<Rightarrow>
      (let order = np_argsort env proba;
           top_indices = rev (drop (length order - 3) order)
       in case mapM (\<lambda>idx.
                  case inverse_transform_label (label_encoder self) (int idx) of
                    Inl e \<Rightarrow> Inl e
                  | Inr d \<Rightarrow> (case item proba idx of Inl e \<Rightarrow> Inl e | Inr p \<Rightarrow> Inr (d, p)))
                top_indices of
            Inl e \<Rightarrow> Inl e
          | Inr tops \<Rightarrow>
              Inr \<lparr>primary_diagnosis = diag,
                   confidence = conf,
                   top_diagnoses = tops,
                   risk_level =
                     (if conf > float_literal env (8 / 10) then ''high''
                      else if conf > float_literal env (6 / 10) then ''medium''
                      else ''low'')\<rparr>))))"

definition diagnose :: "env \<Rightarrow> health_model \<Rightarrow> patient_data \<Rightarrow> exn + diagnose_result" where
  "diagnose env self patient_data =
     (case (case patient_data of
              Dict d \<Rightarrow> Inr (DataFrame [d])
            | Frame df \<Rightarrow> Inr df
            | Other v \<Rightarrow> Inl (no_attribute v ''iterrows'')) of
        Inl e \<Rightarrow> Inl e
      | Inr patient_df \<Rightarrow>
      (case prepare_features env self patient_df of
        (st, Inl e) \<Rightarrow> Inl e
      | ((self', patient_df'), Inr X) \<Rightarrow>
      (case predict_ensemble self' X of
        Inl e \<Rightarrow> Inl e
      | Inr predictions \<Rightarrow>
      (case predict_proba_ensemble env self' X of
        Inl e \<Rightarrow> Inl e
      | Inr Scalar_nan \<Rightarrow> Inl (TypeError (quoted ''numpy.float64'' @ '' object is not iterable''))
      | Inr (Array2 probabilities) \<Rightarrow>
      (case mapM (diagnose_one env self') (zip predictions probabilities) of
        Inl e \<Rightarrow> Inl e
      | Inr results \<Rightarrow>
          Inr (case results of [r] \<Rightarrow> One r | _ \<Rightarrow> Many results))))))"


subsection \<open>The diagnosis handler\<close>

definition diagnosis_json :: "diagnosis \<Rightarrow> json" where
  "diagnosis_json r =
     JObj [(''primary_diagnosis'', JStr (primary_diagnosis r)),
           (''confidence'', JFloat (confidence r)),
           (''top_diagnoses'',
              JArr (map (\<lambda>(d, p). JObj [(''diagnosis'', JStr d), (''probability'', JFloat p)])
                     (top_diagnoses r))),
           (''risk_level'', JStr (risk_level r))]"

definition disclaimer :: string where
  "disclaimer = ''This is an AI-generated preliminary assessment. Please consult a healthcare professional for proper medical advice.''"

definition health_try_block :: "env \<Rightarrow> json \<Rightarrow> exn + response" where
  "health_try_block env event =
     (case subscript event ''body'' of
        Inl e \<Rightarrow> Inl e
      | Inr b \<Rightarrow>
      (case loads env b of
        Inl e \<Rightarrow> Inl e
      | Inr input_data \<Rightarrow>
      (case HealthDiagnosisModel env of
        Inl e \<Rightarrow> Inl e
      | Inr model \<Rightarrow>
      (case diagnose env model
              (case input_data of JObj d \<Rightarrow> Dict d | v \<Rightarrow> Other v) of
        Inl e \<Rightarrow> Inl e
      | Inr diagnosis_result \<Rightarrow>
          Inr \<lparr>statusCode = 200,
               body = json_dumps env
                 (JObj [(''diagnosis'',
                           (case diagnosis_result of
                              One r \<Rightarrow> diagnosis_json r
                            | Many rs \<Rightarrow> JArr (map diagnosis_json rs))),
                        (''model_version'', JStr ''1.0.0''),
                        (''timestamp'', JStr (now_isoformat env)),
                        (''disclaimer'', JStr disclaimer)])\<rparr>))))"

definition health_lambda_handler :: "env \<Rightarrow> json \<Rightarrow> exn + response" where
  "health_lambda_handler env event =
     try_except (health_try_block env event) (\<lambda>e. Inr (error_response env e))"

section \<open>demand-forecasting.py\<close>

record demand_model =
  sequence_length :: nat
  features :: nat
  model :: "keras_model option"
  scaler :: minmax_scaler

definition DemandForecastingModel :: "env \<Rightarrow> nat \<Rightarrow> nat \<Rightarrow> exn + demand_model" where
  "DemandForecastingModel env L F =
     (case boto3_client env ''s3'' of
        Some e \<Rightarrow> Inl e
      | None \<Rightarrow>
      (case boto3_client env ''sagemaker-runtime'' of
        Some e \<Rightarrow> Inl e
      | None \<Rightarrow>
          Inr \<lparr>sequence_length = L, features = F, model = None, scaler = MinMaxScaler\<rparr>))"

subsection \<open>Columns of a table\<close>

definition column :: "table \<Rightarrow> string \<Rightarrow> exn + json list" where
  "column data c =
     (case map_of (cols data) c of Some v \<Rightarrow> Inr v | None \<Rightarrow> Inl (KeyError (quoted c)))"

text \<open>
  \<^verbatim>\<open>data[c] = values\<close>: the values are aligned with the rows of the table, so that the
  column has one cell per row.
\<close>

definition align :: "nat \<Rightarrow> json list \<Rightarrow> json list" where
  "align n v = take n v @ replicate (n - length v) JNaN"

definition set_column :: "table \<Rightarrow> string \<Rightarrow> json list \<Rightarrow> table" where
  "set_column data c v = data\<lparr>cols := AList.update c (align (nrows data) v) (cols data)\<rparr>"

definition isin_5_6 :: "json \<Rightarrow> json" where
  "isin_5_6 v = JInt (if v \<in> {JInt 5, JInt 6, JFloat 5, JFloat 6} then 1 else 0)"

definition feature_columns :: "string list" where
  "feature_columns = [''sales'', ''price'', ''day_of_week'', ''month'', ''is_weekend'']"

definition cell :: "json list \<Rightarrow> nat \<Rightarrow> json" where
  "cell v i = (if i < length v then v ! i else JNaN)"

text \<open>\<^verbatim>\<open>data[features].values\<close>: the rows of the selected columns.\<close>

definition select_values :: "table \<Rightarrow> string list \<Rightarrow> exn + json list list" where
  "select_values data names =
     (case mapM (column data) names of
        Inl e \<Rightarrow> Inl e
      | Inr selected \<Rightarrow> Inr (map (\<lambda>i. map (\<lambda>v. cell v i) selected) [0..<nrows data]))"

text \<open>
  The feature engineering of \<open>prepare_data\<close>: the four assignments to the table. The
  result is the table as they leave it, also when one of them raises, and the raise.
\<close>

definition add_features :: "env \<Rightarrow> table \<Rightarrow> table \<times> (exn + unit)" where
  "add_features env data =
     (case column data ''date'' of
        Inl e \<Rightarrow> (data, Inl e)
      | Inr date \<Rightarrow>
      (case dt_dayofweek env date of
        Inl e \<Rightarrow> (data, Inl e)
      | Inr dayofweek \<Rightarrow>
      (let data1 = set_column data ''day_of_week'' dayofweek
       in case column data1 ''date'' of
        Inl e \<Rightarrow> (data1, Inl e)
      | Inr date1 \<Rightarrow>
      (case dt_month env date1 of
        Inl e \<Rightarrow> (data1, Inl e)
      | Inr month \<Rightarrow>
      (let data2 = set_column data1 ''month'' month
       in case column data2 ''day_of_week'' of
        Inl e \<Rightarrow> (data2, Inl e)
      | Inr day_of_week \<Rightarrow>
      (let data3 = set_column data2 ''is_weekend'' (map isin_5_6 day_of_week);
           is_holiday = (case map_of (cols data3) ''is_holiday'' of
                           Some v \<Rightarrow> v
                         | None \<Rightarrow> replicate (nrows data3) (JInt 0))
       in (set_column data3 ''is_holiday'' is_holiday, Inr ())))))))"

text \<open>\<^verbatim>\<open>xs[a:b]\<close> for \<open>0 \<le> a \<le> b\<close>.\<close>

definition slice :: "'a list \<Rightarrow> nat \<Rightarrow> nat \<Rightarrow> 'a list" where
  "slice xs a b = take (b - a) (drop a xs)"

text \<open>\<^verbatim>\<open>row[0]\<close>\<close>

definition first_item :: "rat list \<Rightarrow> exn + rat" where
  "first_item row =
     (case row of
        [] \<Rightarrow> Inl (IndexError ''index 0 is out of bounds for axis 0 with size 0'')
      | v # _ \<Rightarrow> Inr v)"

text \<open>The loop of \<open>prepare_data\<close> that cuts the scaled rows into windows and targets.\<close>

definition create_sequences :: "nat \<Rightarrow> matrix \<Rightarrow> exn + (matrix list \<times> rat list)" where
  "create_sequences L scaled_data =
     (case mapM (\<lambda>i. case first_item (scaled_data ! i) of
                        Inl e \<Rightarrow> Inl e
                      | Inr target \<Rightarrow> Inr (slice scaled_data (i - L) i, target))
             [L..<length scaled_data] of
        Inl e \<Rightarrow> Inl e
      | Inr pairs \<Rightarrow> Inr (map fst pairs, map snd pairs))"

text \<open>
  \<open>prepare_data\<close> assigns to the table it is given and refits the scaler of the model:
  the result is the model and the table as the call leaves them, also when it raises,
  and what it returns or raises.
\<close>

definition prepare_data ::
  "env \<Rightarrow> demand_model \<Rightarrow> table \<Rightarrow>
     (demand_model \<times> table) \<times> (exn + matrix list \<times> rat list)" where
  "prepare_data env self data =
     (case add_features env data of
        (data', Inl e) \<Rightarrow> ((self, data'), Inl e)
      | (data', Inr u) \<Rightarrow>
      (case select_values data' feature_columns of
        Inl e \<Rightarrow> ((self, data'), Inl e)
      | Inr feature_data \<Rightarrow>
      (case fit_transform env (scaler self) feature_data of
        (fitted, Inl e) \<Rightarrow> ((self\<lparr>scaler := fitted\<rparr>, data'), Inl e)
      | (fitted, Inr scaled_data) \<Rightarrow>
      (case create_sequences (sequence_length self) scaled_data of
        Inl e \<Rightarrow> ((self\<lparr>scaler := fitted\<rparr>, data'), Inl e)
      | Inr (X, y) \<Rightarrow> ((self\<lparr>scaler := fitted\<rparr>, data'), Inr (X, y))))))"

subsection \<open>Forecasting\<close>

text \<open>\<^verbatim>\<open>X[-1]\<close> along axis 0, and \<^verbatim>\<open>current_sequence[0, -1]\<close> along axis 1.\<close>

definition last_item :: "string \<Rightarrow> 'a list \<Rightarrow> exn + 'a" where
  "last_item axis xs =
     (if xs = []
      then Inl (IndexError (''index -1 is out of bounds for axis '' @ axis @ '' with size 0''))
      else Inr (last xs))"

text \<open>
  \<^verbatim>\<open>w.reshape(1, L, F)\<close> of a window: the entries of the window in row-major order, cut
  into \<open>L\<close> rows of \<open>F\<close> entries, when there are \<open>L * F\<close> of them.
\<close>

definition reshape :: "matrix \<Rightarrow> nat \<Rightarrow> nat \<Rightarrow> exn + matrix" where
  "reshape w L F =
     (let flat = concat w
      in if length flat = L * F then Inr (map (\<lambda>r. take F (drop (r * F) flat)) [0..<L])
         else Inl (ValueError ''cannot reshape array''))"

text \<open>\<^verbatim>\<open>range(days_ahead)\<close>: the number of rounds of the loop.\<close>

definition py_range :: "json \<Rightarrow> exn + nat" where
  "py_range v =
     (case v of
        JInt d \<Rightarrow> Inr (nat d)
      | JBool b \<Rightarrow> Inr (if b then 1 else 0)
      | _ \<Rightarrow> Inl (TypeError (quoted (type_name v) @ '' object cannot be interpreted as an integer'')))"

text \<open>\<^verbatim>\<open>np.roll(current_sequence, -1, axis=1)\<close>: every row moves up, the first becomes the last.\<close>

definition np_roll :: "matrix \<Rightarrow> matrix" where
  "np_roll w = (case w of [] \<Rightarrow> [] | r # rs \<Rightarrow> rs @ [r])"

text \<open>\<^verbatim>\<open>new_row[0] = pred\<close>\<close>

definition set_first :: "rat list \<Rightarrow> rat \<Rightarrow> exn + rat list" where
  "set_first row v =
     (if row = [] then Inl (IndexError ''index 0 is out of bounds for axis 0 with size 0'')
      else Inr (row[0 := v]))"

text \<open>
  The loop of \<open>predict\<close>, \<open>n\<close> rounds to go: \<open>predictions\<close> and \<open>current_sequence\<close> are the
  loop's variables, \<open>world\<close> the effects so far.
\<close>

fun forecast_loop ::
  "keras_model \<Rightarrow> nat \<Rightarrow> matrix \<Rightarrow> rat list \<Rightarrow> effect list \<Rightarrow> effect list \<times> (exn + rat list)" where
  "forecast_loop m 0 current_sequence predictions world = (world, Inr predictions)"
| "forecast_loop m (Suc n) current_sequence predictions world =
     (let world1 = world @ [Predicted current_sequence]
      in case keras_predict m current_sequence of
        Inl e \<Rightarrow> (world1, Inl e)
      | Inr pred \<Rightarrow>
      (case last_item ''1'' current_sequence of
        Inl e \<Rightarrow> (world1, Inl e)
      | Inr last_row \<Rightarrow>
      (case set_first last_row pred of
        Inl e \<Rightarrow> (world1, Inl e)
      | Inr new_row \<Rightarrow>
          forecast_loop m n
            ((np_roll current_sequence)[length current_sequence - 1 := new_row])
            (predictions @ [pred]) world1)))"

text \<open>
  \<^verbatim>\<open>dummy_array = np.zeros((len(predictions), F)); dummy_array[:, 0] = predictions\<close>
\<close>

definition dummy_array :: "nat \<Rightarrow> rat list \<Rightarrow> exn + matrix" where
  "dummy_array F predictions =
     (if F = 0 then Inl (IndexError ''index 0 is out of bounds for axis 1 with size 0'')
      else Inr (map (\<lambda>p. p # replicate (F - 1) 0) predictions))"

text \<open>
  \<open>predict\<close>: the model, the table and the effects as the call leaves them, and the
  list it returns or the exception it raises.
\<close>

definition predict ::
  "env \<Rightarrow> demand_model \<Rightarrow> table \<Rightarrow> json \<Rightarrow> effect list \<Rightarrow>
     (demand_model \<times> table \<times> effect list) \<times> (exn + rat list)" where
  "predict env self data days_ahead world =
     (case model self of
        None \<Rightarrow> ((self, data, world), Inl (ValueError ''Model not trained. Call train() first.''))
      | Some m \<Rightarrow>
      (case prepare_data env self data of
        ((self', data'), Inl e) \<Rightarrow> ((self', data', world), Inl e)
      | ((self', data'), Inr (X, y)) \<Rightarrow>
      (case last_item ''0'' X of
        Inl e \<Rightarrow> ((self', data', world), Inl e)
      | Inr w \<Rightarrow>
      (case reshape w (sequence_length self') (features self') of
        Inl e \<Rightarrow> ((self', data', world), Inl e)
      | Inr last_sequence \<Rightarrow>
      (case py_range days_ahead of
        Inl e \<Rightarrow> ((self', data', world), Inl e)
      | Inr n \<Rightarrow>
      (case forecast_loop m n last_sequence [] world of
        (world', Inl e) \<Rightarrow> ((self', data', world'), Inl e)
      | (world', Inr predictions) \<Rightarrow>
      (case dummy_array (features self') predictions of
        Inl e \<Rightarrow> ((self', data', world'), Inl e)
      | Inr dummy \<Rightarrow>
      (case inverse_transform env (scaler self') dummy of
        Inl e \<Rightarrow> ((self', data', world'), Inl e)
      | Inr inverted \<Rightarrow>
      (case mapM first_item inverted of
        Inl e \<Rightarrow> ((self', data', world'), Inl e)
      | Inr predictions_scaled \<Rightarrow> ((self', data', world'), Inr predictions_scaled))))))))))"

subsection \<open>Persistence\<close>

definition local_path :: string where
  "local_path = ''/tmp/demand_forecasting_model.h5''"

definition save_model ::
  "env \<Rightarrow> demand_model \<Rightarrow> string \<Rightarrow> string \<Rightarrow> effect list \<Rightarrow> effect list \<times> (exn + unit)" where
  "save_model env self s3_bucket model_key world =
     (case model self of
        None \<Rightarrow> (world, Inl (ValueError ''No model to save''))
      | Some m \<Rightarrow>
      (let world1 = world @ [LocalWrite local_path]
       in case keras_save m local_path of
        Some e \<Rightarrow> (world1, Inl e)
      | None \<Rightarrow>
      (let world2 = world1 @ [S3Upload local_path s3_bucket model_key]
       in case upload_file env local_path s3_bucket model_key of
        Some e \<Rightarrow> (world2, Inl e)
      | None \<Rightarrow> (world2, Inr ()))))"

definition load_model ::
  "env \<Rightarrow> demand_model \<Rightarrow> string \<Rightarrow> string \<Rightarrow> effect list \<Rightarrow>
     effect list \<times> (exn + demand_model)" where
  "load_model env self s3_bucket model_key world =
     (let world1 = world @ [S3Download s3_bucket model_key local_path]
      in case download_file env s3_bucket model_key local_path of
        Some e \<Rightarrow> (world1, Inl e)
      | None \<Rightarrow>
      (let world2 = world1 @ [LocalRead local_path]
       in case load_keras_model env local_path of
        Inl e \<Rightarrow> (world2, Inl e)
      | Inr m \<Rightarrow> (world2, Inr (self\<lparr>model := Some m\<rparr>))))"

subsection \<open>The forecasting handler\<close>

definition demand_try_block :: "env \<Rightarrow> json \<Rightarrow> exn + response" where
  "demand_try_block env event =
     (case subscript event ''body'' of
        Inl e \<Rightarrow> Inl e
      | Inr b \<Rightarrow>
      (case loads env b of
        Inl e \<Rightarrow> Inl e
      | Inr input_data \<Rightarrow>
      (case DemandForecastingModel env 30 5 of
        Inl e \<Rightarrow> Inl e
      | Inr model0 \<Rightarrow>
      (case load_model env model0 ''bharat-ai-hub-models'' ''demand-forecasting/model.h5'' [] of
        (world, Inl e) \<Rightarrow> Inl e
      | (world, Inr model1) \<Rightarrow>
      (case subscript input_data ''data'' of
        Inl e \<Rightarrow> Inl e
      | Inr d \<Rightarrow>
      (case pd_DataFrame env d of
        Inl e \<Rightarrow> Inl e
      | Inr df \<Rightarrow>
      (case (case input_data of
               JObj kvs \<Rightarrow> Inr (dict_get kvs ''days_ahead'' (JInt 7))
             | v \<Rightarrow> Inl (no_attribute v ''get'')) of
        Inl e \<Rightarrow> Inl e
      | Inr days_ahead \<Rightarrow>
      (case predict env model1 df days_ahead world of
        (left, Inl e) \<Rightarrow> Inl e
      | (left, Inr predictions) \<Rightarrow>
          Inr \<lparr>statusCode = 200,
               body = json_dumps env
                 (JObj [(''predictions'', JArr (map JFloat predictions)),
                        (''model_version'', JStr ''1.0.0''),
                        (''timestamp'', JStr (now_isoformat env))])\<rparr>))))))))"

definition demand_lambda_handler :: "env \<Rightarrow> json \<Rightarrow> exn + response" where
  "demand_lambda_handler env event =
     try_except (demand_try_block env event) (\<lambda>e. Inr (error_response env e))"

section \<open>Sample library behaviours and inputs\<close>

text \<open>
  One concrete environment, with fitted estimators, a loaded Keras model and inputs, on
  which the definitions above are evaluated. Its arithmetic is exact, its scaler of
  the forecasting module scales every column to the unit interval and raises on an
  empty array, its classifiers threshold the sum of a row, its Keras model answers a
  window of its input shape with the mean of the first column and raises on any other,
  and its JSON reader knows the sample documents only. The JSON
  writer prints a float as a fraction.
\<close>

definition number :: "json \<Rightarrow> exn + rat" where
  "number v =
     (case v of
        JInt i \<Rightarrow> Inr (of_int i)
      | JFloat q \<Rightarrow> Inr q
      | JBool b \<Rightarrow> Inr (if b then 1 else 0)
      | _ \<Rightarrow> Inl (ValueError ''could not convert string to float''))"

fun digits :: "nat \<Rightarrow> string" where
  "digits n =
     (if n < 10 then [char_of (48 + n)] else digits (n div 10) @ [char_of (48 + n mod 10)])"

definition int_text :: "int \<Rightarrow> string" where
  "int_text i = (if i < 0 then ''-'' @ digits (nat (- i)) else digits (nat i))"

fun join :: "string \<Rightarrow> string list \<Rightarrow> string" where
  "join sep [] = []"
| "join sep [x] = x"
| "join sep (x # y # ys) = x @ sep @ join sep (y # ys)"

definition dq :: "string \<Rightarrow> string" where
  "dq s = [CHR 0x22] @ s @ [CHR 0x22]"

fun json_text :: "json \<Rightarrow> string" where
  "json_text JNull = ''null''"
| "json_text (JBool b) = (if b then ''true'' else ''false'')"
| "json_text (JInt i) = int_text i"
| "json_text (JFloat q) = (case quotient_of q of (n, d) \<Rightarrow> int_text n @ ''/'' @ int_text d)"
| "json_text JNaN = ''NaN''"
| "json_text (JStr s) = dq s"
| "json_text (JArr xs) = ''['' @ join '', '' (map json_text xs) @ '']''"
| "json_text (JObj kvs) =
     ''{'' @ join '', '' (map (\<lambda>(k, v). dq k @ '': '' @ json_text v) kvs) @ ''}''"

definition sample_patient :: json where
  "sample_patient =
     JObj [(''age'', JInt 42), (''gender'', JStr ''male''),
           (''symptoms'', JStr ''chest pain, shortness of breath, dizziness''),
           (''medical_history'', JStr ''hypertension''), (''temperature'', JInt 99)]"

definition sample_request :: json where
  "sample_request =
     JObj [(''data'',
              JObj [(''date'', JArr (replicate 31 (JStr ''2024-01-06''))),
                    (''sales'', JArr (map (\<lambda>i. JInt (int i)) [0..<31])),
                    (''price'', JArr (replicate 31 (JInt 10)))]),
           (''days_ahead'', JInt 2)]"

definition sample_loads :: "string \<Rightarrow> exn + json" where
  "sample_loads s =
     (case find (\<lambda>v. json_text v = s) [sample_patient, sample_request] of
        Some v \<Rightarrow> Inr v
      | None \<Rightarrow> Inl (ValueError ''Expecting value: line 1 column 1 (char 0)''))"

definition sample_argsort :: "rat list \<Rightarrow> nat list" where
  "sample_argsort xs = map snd (sort_key fst (zip xs [0..<length xs]))"

definition sample_calendar :: "(string \<times> int \<times> int) list" where
  "sample_calendar =
     [(''2024-01-01'', 0, 1), (''2024-01-02'', 1, 1), (''2024-01-03'', 2, 1),
      (''2024-01-04'', 3, 1), (''2024-01-05'', 4, 1), (''2024-01-06'', 5, 1),
      (''2024-01-07'', 6, 1)]"

definition sample_datetime :: "json \<Rightarrow> exn + int \<times> int" where
  "sample_datetime c =
     (case c of
        JStr s \<Rightarrow>
          (case map_of sample_calendar s of
             Some dm \<Rightarrow> Inr dm
           | None \<Rightarrow> Inl (ValueError (''Unknown datetime string format, unable to parse: '' @ s)))
      | _ \<Rightarrow> Inl (TypeError (quoted (type_name c) @ '' is not convertible to datetime'')))"

definition sample_dayofweek :: "json list \<Rightarrow> exn + json list" where
  "sample_dayofweek dates =
     mapM (\<lambda>c. case sample_datetime c of Inl e \<Rightarrow> Inl e | Inr (d, m) \<Rightarrow> Inr (JInt d)) dates"

definition sample_month :: "json list \<Rightarrow> exn + json list" where
  "sample_month dates =
     mapM (\<lambda>c. case sample_datetime c of Inl e \<Rightarrow> Inl e | Inr (d, m) \<Rightarrow> Inr (JInt m)) dates"

definition sample_fit_transform ::
  "minmax_scaler \<Rightarrow> json list list \<Rightarrow> minmax_scaler \<times> (exn + matrix)" where
  "sample_fit_transform old cells =
     (case mapM (mapM number) cells of
        Inl e \<Rightarrow> ([], Inl e)
      | Inr [] \<Rightarrow>
          ([], Inl (ValueError ''Found array with 0 sample(s) while a minimum of 1 is required by MinMaxScaler.''))
      | Inr (r # rs) \<Rightarrow>
          (let lo = foldl (map2 min) r rs; hi = foldl (map2 max) r rs
           in ([(''data_min_'', lo), (''data_max_'', hi)],
               Inr (map (\<lambda>row. map2 (\<lambda>x (lo, hi). if hi = lo then x - lo else (x - lo) / (hi - lo))
                                  row (zip lo hi)) (r # rs)))))"

definition sample_inverse_transform :: "minmax_scaler \<Rightarrow> matrix \<Rightarrow> exn + matrix" where
  "sample_inverse_transform fitted Y =
     (case (map_of fitted ''data_min_'', map_of fitted ''data_max_'') of
        (Some lo, Some hi) \<Rightarrow>
          if Y = []
          then Inl (ValueError ''Found array with 0 sample(s) while a minimum of 1 is required by MinMaxScaler.'')
          else if list_all (\<lambda>row. length row = length lo) Y
          then Inr (map (\<lambda>row. map2 (\<lambda>y (lo, hi). if hi = lo then y + lo else y * (hi - lo) + lo)
                                   row (zip lo hi)) Y)
          else Inl (ValueError ''X has a different number of features than MinMaxScaler is expecting'')
      | _ \<Rightarrow> Inl (not_fitted ''MinMaxScaler''))"

definition sample_DataFrame :: "json \<Rightarrow> exn + table" where
  "sample_DataFrame v =
     (case v of
        JObj kvs \<Rightarrow>
          (case mapM (\<lambda>(k, c). case c of
                                  JArr cells \<Rightarrow> Inr (k, cells)
                                | _ \<Rightarrow> Inl (ValueError ''If using all scalar values, you must pass an index''))
                  kvs of
             Inl e \<Rightarrow> Inl e
           | Inr named \<Rightarrow>
               (let n = (case named of [] \<Rightarrow> 0 | (k, cells) # _ \<Rightarrow> length cells)
                in if list_all (\<lambda>(k, cells). length cells = n) named
                   then Inr \<lparr>nrows = n, cols = named\<rparr>
                   else Inl (ValueError ''All arrays must be of the same length'')))
      | _ \<Rightarrow> Inl (ValueError ''DataFrame constructor not properly called!''))"

definition sample_keras :: "nat \<Rightarrow> keras_model" where
  "sample_keras L =
     \<lparr>keras_predict =
        (\<lambda>w. if length w = L \<and> list_all (\<lambda>r. length r = 5) w
              then Inr (sum_list (map (\<lambda>r. case r of [] \<Rightarrow> 0 | v # _ \<Rightarrow> v) w) / of_nat (length w))
              else Inl (ValueError ''Input 0 of layer is incompatible with the layer'')),
      keras_save = (\<lambda>path. None)\<rparr>"

definition sample_env :: env where
  "sample_env =
     \<lparr>json_loads = sample_loads,
      json_dumps = json_text,
      now_isoformat = ''2024-01-08T09:30:00.000000'',
      boto3_client = (\<lambda>service. None),
      py_str = json_text,
      rnd = (\<lambda>q. q),
      np_argsort = sample_argsort,
      dt_dayofweek = sample_dayofweek,
      dt_month = sample_month,
      fit_transform = sample_fit_transform,
      inverse_transform = sample_inverse_transform,
      pd_DataFrame = sample_DataFrame,
      download_file = (\<lambda>bucket key path. None),
      upload_file = (\<lambda>path bucket key. None),
      load_keras_model = (\<lambda>path. Inr (sample_keras 30))\<rparr>"

definition sample_classifier :: "rat \<Rightarrow> classifier" where
  "sample_classifier t =
     \<lparr>clf_predict = (\<lambda>X. Inr (map (\<lambda>row. if t < sum_list row then 1 else 0) X)),
      clf_predict_proba =
        Some (\<lambda>X. Inr (map (\<lambda>row. if t < sum_list row then [1 / 4, 3 / 4] else [3 / 4, 1 / 4]) X))\<rparr>"

definition sample_health_model :: health_model where
  "sample_health_model =
     \<lparr>models = [(''random_forest'', sample_classifier 100),
                (''gradient_boosting'', sample_classifier 150),
                (''xgboost'', sample_classifier 200)],
      scaler = \<lparr>transform = (\<lambda>X. mapM (mapM number) (records X))\<rparr>,
      label_encoder =
        \<lparr>inverse_transform_label =
           (\<lambda>y. if y = 0 then Inr ''Gastroenteritis''
                else if y = 1 then Inr ''Viral Infection''
                else Inl (ValueError ''y contains previously unseen labels''))\<rparr>,
      feature_selector = \<lparr>selector_transform = Inr\<rparr>,
      feature_names = None,
      diagnosis_classes = Some [''Gastroenteritis'', ''Viral Infection'']\<rparr>"

definition sample_frame :: frame where
  "sample_frame =
     \<lparr>columns = [''age'', ''heart_rate''],
      records = [[JInt 30, JInt 20], [JInt 50, JInt 70], [JInt 90, JInt 90], [JInt 60, JInt 190]]\<rparr>"

definition sample_table :: table where
  "sample_table =
     \<lparr>nrows = 4,
      cols = [(''date'', map JStr [''2024-01-05'', ''2024-01-06'', ''2024-01-07'', ''2024-01-01'']),
              (''sales'', map JInt [10, 20, 30, 40]),
              (''price'', map JInt [5, 5, 6, 7])]\<rparr>"

definition sample_demand_model :: demand_model where
  "sample_demand_model =
     \<lparr>sequence_length = 2, features = 5, model = Some (sample_keras 2), scaler = MinMaxScaler\<rparr>"

definition sample_short_table :: table where
  "sample_short_table =
     \<lparr>nrows = 2,
      cols = [(''date'', map JStr [''2024-01-05'', ''2024-01-06'']),
              (''sales'', map JInt [10, 20]),
              (''price'', map JInt [5, 5])]\<rparr>"

text \<open>What \<open>prepare_data\<close> makes of the sample table: the table, the fitted scaler and
  the scaled rows.\<close>

definition sample_prepared_table :: table where
  "sample_prepared_table =
     \<lparr>nrows = 4,
      cols = [(''date'', map JStr [''2024-01-05'', ''2024-01-06'', ''2024-01-07'', ''2024-01-01'']),
              (''sales'', map JInt [10, 20, 30, 40]),
              (''price'', map JInt [5, 5, 6, 7]),
              (''day_of_week'', map JInt [4, 5, 6, 0]),
              (''month'', map JInt [1, 1, 1, 1]),
              (''is_weekend'', map JInt [0, 1, 1, 0]),
              (''is_holiday'', map JInt [0, 0, 0, 0])]\<rparr>"

definition sample_fitted :: minmax_scaler where
  "sample_fitted = [(''data_min_'', [10, 5, 0, 1, 0]), (''data_max_'', [40, 7, 6, 1, 1])]"

definition sample_scaled :: matrix where
  "sample_scaled =
     [[0, 0, 2 / 3, 0, 0], [1 / 3, 0, 5 / 6, 0, 1], [2 / 3, 1 / 2, 1, 0, 1], [1, 1, 0, 0, 0]]"

section \<open>Sequencing\<close>

lemma mapM_map: "(\<And>x. x \<in> set xs \<Longrightarrow> f x = Inr (g x)) \<Longrightarrow> mapM f xs = Inr (map g xs)"
  by (induction xs) auto

lemma mapM_Inr_length: "mapM f xs = Inr ys \<Longrightarrow> length ys = length xs"
  by (induction xs arbitrary: ys) (auto split: sum.splits)

lemma mapM_Inr_nth: "mapM f xs = Inr ys \<Longrightarrow> i < length xs \<Longrightarrow> f (xs ! i) = Inr (ys ! i)"
proof (induction xs arbitrary: ys i)
  case Nil
  then show ?case by simp
next
  case (Cons x xs)
  then show ?case by (cases i) (auto split: sum.splits)
qed

lemma mapM_total: "(\<And>x. x \<in> set xs \<Longrightarrow> \<exists>y. f x = Inr y) \<Longrightarrow> \<exists>ys. mapM f xs = Inr ys"
proof (induction xs)
  case Nil
  then show ?case by simp
next
  case (Cons x xs)
  then obtain y where y: "f x = Inr y" by auto
  from Cons obtain ys where ys: "mapM f xs = Inr ys" by auto
  show ?case using y ys by simp
qed

section \<open>Properties of the diagnosis module\<close>

subsection \<open>Keyword matching\<close>

lemma str_in_sublist: "str_in kw t = sublist kw t"
  by (induction t) (auto simp: sublist_Cons_right)

lemma update_fresh: "k \<notin> fst ` set al \<Longrightarrow> AList.update k v al = al @ [(k, v)]"
  by (induction al) auto

lemma fold_update_fresh:
  "distinct (map fst acc @ map fst kvs) \<Longrightarrow>
   fold (\<lambda>(k, v) a. AList.update k (f v) a) kvs acc = acc @ map (\<lambda>(k, v). (k, f v)) kvs"
proof (induction kvs arbitrary: acc)
  case Nil
  then show ?case by simp
next
  case (Cons kv kvs)
  obtain k v where kv: "kv = (k, v)" by (cases kv)
  from Cons.prems kv have fresh: "k \<notin> fst ` set acc" by auto
  from Cons.prems kv have d: "distinct (map fst (acc @ [(k, f v)]) @ map fst kvs)" by auto
  show ?case using Cons.IH [OF d] by (simp add: kv update_fresh [OF fresh])
qed

lemma distinct_symptoms: "distinct (map fst symptom_keywords)"
  by (simp add: symptom_keywords_def)

lemma preprocess_symptoms_map:
  "preprocess_symptoms t =
     map (\<lambda>(symptom, kws).
            (symptom, if list_ex (\<lambda>keyword. str_in keyword (lower t)) kws then 1 else 0))
         symptom_keywords"
  unfolding preprocess_symptoms_def Let_def
  using fold_update_fresh [of "[]" symptom_keywords
          "\<lambda>kws. if list_ex (\<lambda>keyword. str_in keyword (lower t)) kws then 1 else (0::int)"]
  by (simp add: distinct_symptoms)

lemma map_of_map_distinct:
  "distinct (map fst kvs) \<Longrightarrow> (k, v) \<in> set kvs \<Longrightarrow>
   map_of (map (\<lambda>(k, v). (k, f v)) kvs) k = Some (f v)"
  by (induction kvs) (auto simp: rev_image_eqI)

text \<open>
  C6. For every text, \<open>preprocess_symptoms\<close> returns a mapping whose keys are exactly the
  15 symptom categories of the table, each once, and the flag of a category is 1 if
  one of the category's keywords is a substring of the lower-cased text and 0 if none is.
\<close>

theorem preprocess_symptoms_flags:
  "map fst (preprocess_symptoms t) = map fst symptom_keywords \<and>
   length symptom_keywords = 15 \<and> distinct (map fst symptom_keywords) \<and>
   (\<forall>(symptom, kws) \<in> set symptom_keywords.
      map_of (preprocess_symptoms t) symptom =
        Some (if \<exists>keyword \<in> set kws. sublist keyword (lower t) then 1 else 0))"
proof -
  have keys: "map fst (preprocess_symptoms t) = map fst symptom_keywords"
    by (simp add: preprocess_symptoms_map case_prod_beta comp_def)
  have n: "length symptom_keywords = 15"
    by (simp add: symptom_keywords_def)
  have flags: "map_of (preprocess_symptoms t) symptom =
        Some (if \<exists>keyword \<in> set kws. sublist keyword (lower t) then 1 else 0)"
    if "(symptom, kws) \<in> set symptom_keywords" for symptom kws
    using map_of_map_distinct [OF distinct_symptoms that,
            of "\<lambda>kws. if list_ex (\<lambda>keyword. str_in keyword (lower t)) kws then 1 else (0::int)"]
    by (simp add: preprocess_symptoms_map list_ex_iff str_in_sublist)
  show ?thesis using keys n distinct_symptoms flags by blast
qed

theorem preprocess_symptoms_flags_witness:
  "map_of (preprocess_symptoms ''High FEVER, sore Throat'') ''fever'' = Some 1 \<and>
   map_of (preprocess_symptoms ''High FEVER, sore Throat'') ''rash'' = Some 0"
proof -
  have m1: "(''fever'', [''fever'', ''temperature'', ''hot'', ''burning'']) \<in> set symptom_keywords"
    by (simp add: symptom_keywords_def)
  have m2: "(''rash'', [''rash'', ''skin'', ''itching'', ''spots'']) \<in> set symptom_keywords"
    by (simp add: symptom_keywords_def)
  have l: "lower ''High FEVER, sore Throat'' = ''high fever, sore throat''"
    by code_simp
  have s1: "sublist ''fever'' ''high fever, sore throat''" by code_simp
  have s2: "\<not> (\<exists>keyword \<in> set [''rash'', ''skin'', ''itching'', ''spots''].
               sublist keyword ''high fever, sore throat'')" by code_simp
  from preprocess_symptoms_flags [of "''High FEVER, sore Throat''"] m1 m2
  have "map_of (preprocess_symptoms ''High FEVER, sore Throat'') ''fever'' =
          Some (if \<exists>keyword \<in> set [''fever'', ''temperature'', ''hot'', ''burning''].
                     sublist keyword (lower ''High FEVER, sore Throat'') then 1 else 0)"
    and "map_of (preprocess_symptoms ''High FEVER, sore Throat'') ''rash'' =
          Some (if \<exists>keyword \<in> set [''rash'', ''skin'', ''itching'', ''spots''].
                     sublist keyword (lower ''High FEVER, sore Throat'') then 1 else 0)"
    by blast+
  then show ?thesis using s1 s2 unfolding l by simp
qed

subsection \<open>Feature preparation leaves its objects alone\<close>

lemma feature_vector_frame: "fst (feature_vector env st row) = st"
  by (auto simp: feature_vector_def Let_def split: sum.splits)

lemma feature_vector_result:
  "snd (feature_vector env st row) = snd (feature_vector env st' row)"
  by (auto simp: feature_vector_def Let_def split: sum.splits)

lemma feature_rows_frame: "fst (feature_rows env st rows acc) = st"
proof (induction rows arbitrary: st acc)
  case Nil
  then show ?case by simp
next
  case (Cons row rows)
  obtain st' r where fv: "feature_vector env st row = (st', r)" by (cases "feature_vector env st row")
  have "st' = st" using feature_vector_frame [of env st row] fv by simp
  then show ?case using fv Cons.IH by (cases r) simp_all
qed

lemma feature_rows_result:
  "snd (feature_rows env st rows acc) = snd (feature_rows env st' rows acc)"
proof (induction rows arbitrary: acc)
  case Nil
  then show ?case by simp
next
  case (Cons row rows)
  obtain s1 r1 where a: "feature_vector env st row = (s1, r1)" by (cases "feature_vector env st row")
  obtain s2 r2 where b: "feature_vector env st' row = (s2, r2)" by (cases "feature_vector env st' row")
  have s: "s1 = st" "s2 = st'"
    using feature_vector_frame [of env st row] feature_vector_frame [of env st' row] a b by simp_all
  have r: "r1 = r2" using feature_vector_result [of env st row st'] a b by simp
  show ?case using a b s r Cons.IH by (cases r2) simp_all
qed

lemma prepare_features_frame: "fst (prepare_features env self data) = (self, data)"
proof -
  obtain st r where f: "feature_rows env (self, data) (iterrows data) [] = (st, r)"
    by (cases "feature_rows env (self, data) (iterrows data) []")
  have "st = (self, data)" using feature_rows_frame [of env "(self, data)" "iterrows data" "[]"] f by simp
  then show ?thesis using f by (cases r) (simp_all add: prepare_features_def)
qed

lemma prepare_features_result:
  "snd (prepare_features env self data) = snd (prepare_features env other data)"
proof -
  obtain s1 r1 where a: "feature_rows env (self, data) (iterrows data) [] = (s1, r1)"
    by (cases "feature_rows env (self, data) (iterrows data) []")
  obtain s2 r2 where b: "feature_rows env (other, data) (iterrows data) [] = (s2, r2)"
    by (cases "feature_rows env (other, data) (iterrows data) []")
  have "r1 = r2"
    using feature_rows_result [of env "(self, data)" "iterrows data" "[]" "(other, data)"] a b by simp
  then show ?thesis using a b by (cases r2) (simp_all add: prepare_features_def)
qed

lemma prepare_features_cases:
  obtains e where "prepare_features env self data = ((self, data), Inl e)"
  | X where "prepare_features env self data = ((self, data), Inr X)"
proof -
  obtain st r where p: "prepare_features env self data = (st, r)"
    by (cases "prepare_features env self data")
  have "st = (self, data)" using prepare_features_frame [of env self data] p by simp
  then show ?thesis using p that by (cases r) auto
qed

subsection \<open>Majority vote\<close>

lemma argmax_scan_spec:
  "besti < length pre \<Longrightarrow> pre ! besti = best \<Longrightarrow> \<forall>j<length pre. pre ! j \<le> best \<Longrightarrow>
   \<forall>j<besti. pre ! j < best \<Longrightarrow> r = argmax_scan cs best besti (length pre) \<Longrightarrow>
   r < length (pre @ cs) \<and> (\<forall>j<length (pre @ cs). (pre @ cs) ! j \<le> (pre @ cs) ! r) \<and>
   (\<forall>j<r. (pre @ cs) ! j < (pre @ cs) ! r)"
proof (induction cs arbitrary: pre best besti)
  case Nil
  then show ?case by simp
next
  case (Cons c cs)
  show ?case
  proof (cases "best < c")
    case True
    have 1: "length pre < length (pre @ [c])" by simp
    have 2: "(pre @ [c]) ! length pre = c" by simp
    have 3: "\<forall>j<length (pre @ [c]). (pre @ [c]) ! j \<le> c"
      using Cons.prems(3) True by (auto simp: nth_append less_Suc_eq dest: order_less_imp_le)
    have 4: "\<forall>j<length pre. (pre @ [c]) ! j < c"
      using Cons.prems(3) True by (auto simp: nth_append)
    have r': "r = argmax_scan cs c (length pre) (length (pre @ [c]))"
      using Cons.prems(5) True by simp
    from Cons.IH [of "length pre" "pre @ [c]" c, OF 1 2 3 4 r'] show ?thesis by simp
  next
    case False
    have r: "r = argmax_scan cs best besti (length (pre @ [c]))"
      using Cons.prems(5) False by simp
    have 1: "besti < length (pre @ [c])" using Cons.prems(1) by simp
    have 2: "(pre @ [c]) ! besti = best" using Cons.prems(1,2) by (simp add: nth_append)
    have 3: "\<forall>j<length (pre @ [c]). (pre @ [c]) ! j \<le> best"
      using Cons.prems(3) False by (auto simp: nth_append less_Suc_eq)
    have 4: "\<forall>j<besti. (pre @ [c]) ! j < best"
      using Cons.prems(1,4) by (auto simp: nth_append)
    from Cons.IH [of besti "pre @ [c]" best, OF 1 2 3 4 r] show ?thesis by simp
  qed
qed

lemma np_argmax_spec:
  "cs \<noteq> [] \<Longrightarrow> \<exists>r. np_argmax cs = Inr r \<and> r < length cs \<and>
     (\<forall>j<length cs. cs ! j \<le> cs ! r) \<and> (\<forall>j<r. cs ! j < cs ! r)"
proof (cases cs)
  case Nil
  assume "cs \<noteq> []"
  with Nil show ?thesis by simp
next
  case (Cons c cs')
  from argmax_scan_spec [of 0 "[c]" c "argmax_scan cs' c 0 1" cs'] Cons
  show ?thesis by simp
qed

lemma majority_vote_spec:
  assumes "votes \<noteq> []"
  shows "\<exists>w. majority_vote votes = Inr w \<and> w \<in> set votes \<and>
           (\<forall>v. count_list votes v \<le> count_list votes w) \<and>
           (\<forall>v. count_list votes v = count_list votes w \<longrightarrow> w \<le> v)"
proof -
  define unique where "unique = sort (remdups votes)"
  define counts where "counts = map (count_list votes) unique"
  have su: "set unique = set votes" by (simp add: unique_def)
  have ne: "counts \<noteq> []" using assms su by (auto simp: counts_def)
  from np_argmax_spec [OF ne] obtain r where r: "np_argmax counts = Inr r" "r < length counts"
    "\<forall>j<length counts. counts ! j \<le> counts ! r" "\<forall>j<r. counts ! j < counts ! r" by blast
  have len: "length counts = length unique" by (simp add: counts_def)
  have res: "majority_vote votes = Inr (unique ! r)"
    using r(1) by (simp add: majority_vote_def np_unique_counts_def unique_def counts_def Let_def)
  have mem: "unique ! r \<in> set votes" using r(2) len su nth_mem by metis
  have cr: "counts ! r = count_list votes (unique ! r)" using r(2) len by (simp add: counts_def)
  have sorted: "sorted unique" "distinct unique" by (simp_all add: unique_def)
  have maxc: "count_list votes v \<le> count_list votes (unique ! r)" for v
  proof (cases "v \<in> set votes")
    case True
    then obtain j where j: "j < length unique" "unique ! j = v"
      using su by (metis in_set_conv_nth)
    then have "counts ! j = count_list votes v" by (simp add: counts_def)
    then show ?thesis using r(3) j(1) len cr by metis
  next
    case False
    then show ?thesis by (simp add: count_list_0_iff)
  qed
  have tie: "unique ! r \<le> v" if eq: "count_list votes v = count_list votes (unique ! r)" for v
  proof -
    have "count_list votes (unique ! r) \<noteq> 0" using mem by (simp add: count_list_0_iff)
    then have "v \<in> set votes" using eq by (metis count_list_0_iff)
    then obtain j where j: "j < length unique" "unique ! j = v"
      using su by (metis in_set_conv_nth)
    have cj: "counts ! j = counts ! r" using j eq cr by (simp add: counts_def)
    have "\<not> j < r" using r(4) cj by auto
    then have "r \<le> j" by simp
    then show ?thesis using sorted(1) j by (metis sorted_nth_mono)
  qed
  show ?thesis using res mem maxc tie by blast
qed

lemma majority_of_three:
  assumes "majority_vote [a, b, c] = Inr w" "2 \<le> count_list [a, b, c] v"
  shows "w = v"
proof -
  from majority_vote_spec [of "[a, b, c]"] assms(1)
  have m: "count_list [a, b, c] v \<le> count_list [a, b, c] w" by auto
  show ?thesis using m assms(2) by (auto split: if_splits)
qed

text \<open>
  C1. When the scaler, the feature selection and the three classifiers answer, with one
  label per sample each, \<open>predict_ensemble\<close> returns one label per sample; the label of
  a sample is one of the three predicted for it, no label was predicted for the sample
  more often, and a label that at least two of the three classifiers predicted for the
  sample is the one returned.
\<close>

theorem predict_ensemble_majority:
  assumes ms: "models self = [(name1, c1), (name2, c2), (name3, c3)]"
    and sc: "transform (health_model.scaler self) X = Inr X_scaled"
    and fs: "selector_transform (feature_selector self) X_scaled = Inr X_selected"
    and p1: "clf_predict c1 X_selected = Inr p1"
    and p2: "clf_predict c2 X_selected = Inr p2"
    and p3: "clf_predict c3 X_selected = Inr p3"
    and l2: "length p2 = length p1" and l3: "length p3 = length p1"
  shows "\<exists>ens. predict_ensemble self X = Inr ens \<and> length ens = length p1 \<and>
           (\<forall>i<length p1.
              ens ! i \<in> {p1 ! i, p2 ! i, p3 ! i} \<and>
              (\<forall>v. count_list [p1 ! i, p2 ! i, p3 ! i] v
                     \<le> count_list [p1 ! i, p2 ! i, p3 ! i] (ens ! i)) \<and>
              (\<forall>v. 2 \<le> count_list [p1 ! i, p2 ! i, p3 ! i] v \<longrightarrow> ens ! i = v))"
proof -
  let ?vote = "\<lambda>i. majority_vote (map (\<lambda>p. p ! i) [p1, p2, p3])"
  have preds: "mapM (\<lambda>(name, model). clf_predict model X_selected) (models self)
                 = Inr [p1, p2, p3]"
    by (simp add: ms p1 p2 p3)
  have arr: "np_array [p1, p2, p3] = Inr [p1, p2, p3]"
    by (simp add: np_array_def l2 l3)
  have sh: "shape1 [p1, p2, p3] = Inr (length p1)"
    by (simp add: shape1_def)
  have run: "predict_ensemble self X = mapM ?vote [0..<length p1]"
    by (simp add: predict_ensemble_def ms sc fs p1 p2 p3 arr sh)
  have "\<exists>w. ?vote i = Inr w" for i
    using majority_vote_spec [of "[p1 ! i, p2 ! i, p3 ! i]"] by auto
  then obtain ens where ens: "mapM ?vote [0..<length p1] = Inr ens"
    using mapM_total [of "[0..<length p1]" ?vote] by blast
  have len: "length ens = length p1"
    using mapM_Inr_length [OF ens] by simp
  have each: "majority_vote [p1 ! i, p2 ! i, p3 ! i] = Inr (ens ! i)" if "i < length p1" for i
    using mapM_Inr_nth [OF ens, of i] that by simp
  have props: "ens ! i \<in> {p1 ! i, p2 ! i, p3 ! i} \<and>
      (\<forall>v. count_list [p1 ! i, p2 ! i, p3 ! i] v \<le> count_list [p1 ! i, p2 ! i, p3 ! i] (ens ! i)) \<and>
      (\<forall>v. 2 \<le> count_list [p1 ! i, p2 ! i, p3 ! i] v \<longrightarrow> ens ! i = v)"
    if "i < length p1" for i
  proof -
    from majority_vote_spec [of "[p1 ! i, p2 ! i, p3 ! i]"] each [OF that]
    have a: "ens ! i \<in> set [p1 ! i, p2 ! i, p3 ! i]"
      and b: "\<forall>v. count_list [p1 ! i, p2 ! i, p3 ! i] v \<le> count_list [p1 ! i, p2 ! i, p3 ! i] (ens ! i)"
      by auto
    have c: "\<forall>v. 2 \<le> count_list [p1 ! i, p2 ! i, p3 ! i] v \<longrightarrow> ens ! i = v"
      using majority_of_three [OF each [OF that]] by blast
    show ?thesis using a b c by simp
  qed
  show ?thesis using run ens len props by auto
qed

theorem predict_ensemble_majority_witness:
  "\<exists>ens. predict_ensemble sample_health_model sample_frame = Inr ens \<and> length ens = 4 \<and>
         ens ! 1 = 0 \<and> ens ! 2 = 1"
proof -
  let ?M = "[[30, 20], [50, 70], [90, 90], [60, 190]] :: matrix"
  have ms: "models sample_health_model =
      [(''random_forest'', sample_classifier 100), (''gradient_boosting'', sample_classifier 150),
       (''xgboost'', sample_classifier 200)]"
    by (simp add: sample_health_model_def)
  have sc: "transform (health_model.scaler sample_health_model) sample_frame = Inr ?M"
    by (simp add: sample_health_model_def sample_frame_def number_def)
  have fs: "selector_transform (feature_selector sample_health_model) ?M = Inr ?M"
    by (simp add: sample_health_model_def)
  have p1: "clf_predict (sample_classifier 100) ?M = Inr [0, 1, 1, 1]"
    by (simp add: sample_classifier_def)
  have p2: "clf_predict (sample_classifier 150) ?M = Inr [0, 0, 1, 1]"
    by (simp add: sample_classifier_def)
  have p3: "clf_predict (sample_classifier 200) ?M = Inr [0, 0, 0, 1]"
    by (simp add: sample_classifier_def)
  from predict_ensemble_majority [OF ms sc fs p1 p2 p3]
  obtain ens where e: "predict_ensemble sample_health_model sample_frame = Inr ens"
      "length ens = 4"
    and maj: "\<forall>i<4. \<forall>v. 2 \<le> count_list [[0, 1, 1, 1] ! i, [0, 0, 1, 1] ! i, [0, 0, 0, 1] ! i] v
                \<longrightarrow> ens ! i = v"
    by auto
  have a: "ens ! 1 = 0"
    using maj [rule_format, of 1 0] by simp
  have b: "ens ! 2 = 1"
    using maj [rule_format, of 2 1] by simp
  show ?thesis using e a b by blast
qed

subsection \<open>Mean of the class probabilities\<close>

lemma add_entries_shape:
  "map length B = map length A \<Longrightarrow> map length (add_entries env A B) = map length A"
proof (induction A arbitrary: B)
  case Nil
  then show ?case by (simp add: add_entries_def)
next
  case (Cons a A)
  then obtain b B' where B: "B = b # B'" by (cases B) auto
  with Cons.prems have "length b = length a" "map length B' = map length A" by auto
  then show ?case using Cons.IH [of B'] by (simp add: add_entries_def B)
qed

lemma add_entries_nth:
  assumes "map length B = map length A" "i < length A" "j < length (A ! i)"
  shows "add_entries env A B ! i ! j = rnd env (A ! i ! j + B ! i ! j)"
proof -
  have lB: "length B = length A" using assms(1) by (rule map_eq_imp_length_eq)
  have "map length B ! i = map length A ! i" using assms(1) by simp
  then have lBi: "length (B ! i) = length (A ! i)" using assms(2) lB by simp
  show ?thesis using assms(2,3) lB lBi by (simp add: add_entries_def)
qed

text \<open>
  C2. When the scaler, the feature selection and the three classifiers answer, with
  probability matrices of one shape, \<open>predict_proba_ensemble\<close> returns a matrix of that
  shape whose entry for sample \<open>i\<close> and class \<open>j\<close> is the sum of the three classifiers'
  entries at \<open>(i, j)\<close>, added in the order of the classifiers, divided by three (each
  floating-point operation rounding its result).
\<close>

theorem predict_proba_ensemble_mean:
  assumes ms: "models self = [(name1, c1), (name2, c2), (name3, c3)]"
    and sc: "transform (health_model.scaler self) X = Inr X_scaled"
    and fs: "selector_transform (feature_selector self) X_scaled = Inr X_selected"
    and q1: "clf_predict_proba c1 = Some q1" and P1: "q1 X_selected = Inr P1"
    and q2: "clf_predict_proba c2 = Some q2" and P2: "q2 X_selected = Inr P2"
    and q3: "clf_predict_proba c3 = Some q3" and P3: "q3 X_selected = Inr P3"
    and s2: "map length P2 = map length P1" and s3: "map length P3 = map length P1"
  shows "\<exists>M. predict_proba_ensemble env self X = Inr (Array2 M) \<and>
           map length M = map length P1 \<and>
           (\<forall>i<length P1. \<forall>j<length (P1 ! i).
              M ! i ! j =
                rnd env (rnd env (rnd env (P1 ! i ! j + P2 ! i ! j) + P3 ! i ! j) / 3))"
proof -
  let ?S = "add_entries env (add_entries env P1 P2) P3"
  let ?M = "map (map (\<lambda>s. rnd env (s / 3))) ?S"
  have run: "predict_proba_ensemble env self X = Inr (Array2 ?M)"
    by (simp add: predict_proba_ensemble_def ms sc fs q1 q2 q3 P1 P2 P3 np_mean_axis0_def s2 s3)
  have sh12: "map length (add_entries env P1 P2) = map length P1"
    by (rule add_entries_shape [OF s2])
  have sh3: "map length P3 = map length (add_entries env P1 P2)"
    using s3 sh12 by simp
  have shS: "map length ?S = map length P1"
    using add_entries_shape [OF sh3] sh12 by simp
  have shM: "map length ?M = map length P1"
    using shS by (simp add: comp_def)
  have lS: "length ?S = length P1" using shS by (rule map_eq_imp_length_eq)
  have entry: "?M ! i ! j = rnd env (rnd env (rnd env (P1 ! i ! j + P2 ! i ! j) + P3 ! i ! j) / 3)"
    if i: "i < length P1" and j: "j < length (P1 ! i)" for i j
  proof -
    have "map length ?S ! i = map length P1 ! i" using shS by simp
    then have lSi: "length (?S ! i) = length (P1 ! i)" using i lS by simp
    have l12: "length (add_entries env P1 P2) = length P1"
      using sh12 by (rule map_eq_imp_length_eq)
    have "map length (add_entries env P1 P2) ! i = map length P1 ! i" using sh12 by simp
    then have l12i: "length (add_entries env P1 P2 ! i) = length (P1 ! i)" using i l12 by simp
    have a: "add_entries env P1 P2 ! i ! j = rnd env (P1 ! i ! j + P2 ! i ! j)"
      by (rule add_entries_nth [OF s2 i j])
    have b: "?S ! i ! j = rnd env (add_entries env P1 P2 ! i ! j + P3 ! i ! j)"
      using add_entries_nth [OF sh3, of i j] i j l12 l12i by simp
    show ?thesis using a b i j lS lSi by simp
  qed
  show ?thesis using run shM entry by blast
qed

theorem predict_proba_ensemble_mean_witness:
  "\<exists>M. predict_proba_ensemble sample_env sample_health_model sample_frame = Inr (Array2 M) \<and>
       M ! 1 ! 0 = 7 / 12 \<and> M ! 2 ! 1 = 7 / 12"
proof -
  let ?M = "[[30, 20], [50, 70], [90, 90], [60, 190]] :: matrix"
  let ?lo = "[3 / 4, 1 / 4] :: rat list" and ?hi = "[1 / 4, 3 / 4] :: rat list"
  let ?q = "\<lambda>t X. Inr (map (\<lambda>row. if t < sum_list row then ?hi else ?lo) X) :: exn + matrix"
  have ms: "models sample_health_model =
      [(''random_forest'', sample_classifier 100), (''gradient_boosting'', sample_classifier 150),
       (''xgboost'', sample_classifier 200)]"
    by (simp add: sample_health_model_def)
  have sc: "transform (health_model.scaler sample_health_model) sample_frame = Inr ?M"
    by (simp add: sample_health_model_def sample_frame_def number_def)
  have fs: "selector_transform (feature_selector sample_health_model) ?M = Inr ?M"
    by (simp add: sample_health_model_def)
  have q: "clf_predict_proba (sample_classifier t) = Some (?q t)" for t
    by (simp add: sample_classifier_def)
  have P1: "?q 100 ?M = Inr [?lo, ?hi, ?hi, ?hi]" by simp
  have P2: "?q 150 ?M = Inr [?lo, ?lo, ?hi, ?hi]" by simp
  have P3: "?q 200 ?M = Inr [?lo, ?lo, ?lo, ?hi]" by simp
  have s2: "map length [?lo, ?lo, ?hi, ?hi] = map length [?lo, ?hi, ?hi, ?hi]" by simp
  have s3: "map length [?lo, ?lo, ?lo, ?hi] = map length [?lo, ?hi, ?hi, ?hi]" by simp
  from predict_proba_ensemble_mean [OF ms sc fs q P1 q P2 q P3 s2 s3, of sample_env]
  obtain M where e: "predict_proba_ensemble sample_env sample_health_model sample_frame = Inr (Array2 M)"
    and m: "\<forall>i<4. \<forall>j<length ([?lo, ?hi, ?hi, ?hi] ! i).
              M ! i ! j = rnd sample_env (rnd sample_env (rnd sample_env
                 ([?lo, ?hi, ?hi, ?hi] ! i ! j + [?lo, ?lo, ?hi, ?hi] ! i ! j)
                 + [?lo, ?lo, ?lo, ?hi] ! i ! j) / 3)"
    by auto
  have a: "M ! 1 ! 0 = 7 / 12"
    using m [rule_format, of 1 0] by (simp add: sample_env_def)
  have b: "M ! 2 ! 1 = 7 / 12"
    using m [rule_format, of 2 1] by (simp add: sample_env_def)
  show ?thesis using e a b by blast
qed

subsection \<open>Confidence and risk level\<close>






subsection \<open>The diagnosis handler and its unfitted model\<close>

lemma predict_ensemble_fresh:
  "HealthDiagnosisModel env = Inr m \<Longrightarrow> predict_ensemble m X = Inl (not_fitted ''StandardScaler'')"
  by (auto simp: HealthDiagnosisModel_def predict_ensemble_def split: option.splits)

lemma diagnose_fresh:
  assumes "HealthDiagnosisModel env = Inr m"
  shows "\<exists>e. diagnose env m patient = Inl e"
proof (cases patient)
  case (Other v)
  then show ?thesis by (simp add: diagnose_def)
next
  case (Dict d)
  show ?thesis
    by (cases rule: prepare_features_cases [of env m "DataFrame [d]"])
      (simp_all add: diagnose_def Dict predict_ensemble_fresh [OF assms])
next
  case (Frame df)
  show ?thesis
    by (cases rule: prepare_features_cases [of env m df])
      (simp_all add: diagnose_def Frame predict_ensemble_fresh [OF assms])
qed

lemma health_try_block_raises: "\<exists>e. health_try_block env event = Inl e"
proof (cases "subscript event ''body''")
  case Inl
  then show ?thesis by (simp add: health_try_block_def)
next
  case b: (Inr b)
  show ?thesis
  proof (cases "loads env b")
    case Inl
    then show ?thesis using b by (simp add: health_try_block_def)
  next
    case i: (Inr input_data)
    show ?thesis
    proof (cases "HealthDiagnosisModel env")
      case Inl
      then show ?thesis using b i by (simp add: health_try_block_def)
    next
      case m: (Inr m)
      from diagnose_fresh [OF m]
      obtain e where "diagnose env m (case input_data of JObj d \<Rightarrow> Dict d | v \<Rightarrow> Other v) = Inl e"
        by blast
      then show ?thesis using b i m by (simp add: health_try_block_def)
    qed
  qed
qed

lemma health_lambda_handler_500:
  "\<exists>e. health_lambda_handler env event = Inr (error_response env e)"
  using health_try_block_raises [of env event]
  by (auto simp: health_lambda_handler_def try_except_def)

text \<open>
  C4. The diagnosis handler builds its model with the constructor and fits or loads
  nothing, so the scaler of the model raises on the first use: for every event the
  \<open>try\<close> block raises and the handler answers with status 500. On the request whose
  body is the sample patient, a valid payload, the answer is status 500 with the
  message of the unfitted scaler, not status 200 with a diagnosis.
\<close>

theorem health_lambda_handler_patient:
  "health_lambda_handler sample_env (JObj [(''body'', JStr (json_text sample_patient))])
     = Inr \<lparr>statusCode = 500,
            body = json_dumps sample_env
                     (JObj [(''error'', JStr (str_exn (not_fitted ''StandardScaler''))),
                            (''timestamp'', JStr (now_isoformat sample_env))])\<rparr>"
  by code_simp

section \<open>The sample environment\<close>

lemma sample_add_features: "add_features sample_env sample_table = (sample_prepared_table, Inr ())"
  by code_simp

lemma sample_select_values:
  "select_values sample_prepared_table feature_columns
     = Inr [[JInt 10, JInt 5, JInt 4, JInt 1, JInt 0], [JInt 20, JInt 5, JInt 5, JInt 1, JInt 1],
            [JInt 30, JInt 6, JInt 6, JInt 1, JInt 1], [JInt 40, JInt 7, JInt 0, JInt 1, JInt 0]]"
  by code_simp

lemma sample_fit:
  "fit_transform sample_env old
     [[JInt 10, JInt 5, JInt 4, JInt 1, JInt 0], [JInt 20, JInt 5, JInt 5, JInt 1, JInt 1],
      [JInt 30, JInt 6, JInt 6, JInt 1, JInt 1], [JInt 40, JInt 7, JInt 0, JInt 1, JInt 0]]
     = (sample_fitted, Inr sample_scaled)"
  by (simp add: sample_env_def sample_fit_transform_def number_def sample_fitted_def
        sample_scaled_def)

lemma sample_fit_forgets:
  "fit_transform sample_env old cells = fit_transform sample_env other cells"
  by (simp add: sample_env_def sample_fit_transform_def)

section \<open>Properties of the forecasting module\<close>

subsection \<open>Windows and targets\<close>

lemma nrows_set_column [simp]: "nrows (set_column data c v) = nrows data"
  by (simp add: set_column_def)

lemma add_features_nrows: "nrows (fst (add_features env data)) = nrows data"
  by (auto simp: add_features_def Let_def split: sum.splits)

lemma select_values_shape:
  assumes "select_values data names = Inr feature_data"
  shows "length feature_data = nrows data \<and> (\<forall>r \<in> set feature_data. length r = length names)"
proof -
  from assms obtain selected where s: "mapM (column data) names = Inr selected"
    and f: "feature_data = map (\<lambda>i. map (\<lambda>v. cell v i) selected) [0..<nrows data]"
    by (auto simp: select_values_def split: sum.splits)
  have "length selected = length names" by (rule mapM_Inr_length [OF s])
  then show ?thesis using f by auto
qed

lemma create_sequences_spec:
  assumes "\<forall>r \<in> set scaled_data. r \<noteq> []"
  shows "create_sequences L scaled_data
           = Inr (map (\<lambda>i. slice scaled_data (i - L) i) [L..<length scaled_data],
                  map (\<lambda>i. scaled_data ! i ! 0) [L..<length scaled_data])"
proof -
  have first: "first_item (scaled_data ! i) = Inr (scaled_data ! i ! 0)"
    if "i < length scaled_data" for i
  proof -
    from that assms have "scaled_data ! i \<noteq> []" by simp
    then show ?thesis by (cases "scaled_data ! i") (simp_all add: first_item_def)
  qed
  have "mapM (\<lambda>i. case first_item (scaled_data ! i) of
                        Inl e \<Rightarrow> Inl e
                      | Inr target \<Rightarrow> Inr (slice scaled_data (i - L) i, target))
             [L..<length scaled_data]
        = Inr (map (\<lambda>i. (slice scaled_data (i - L) i, scaled_data ! i ! 0)) [L..<length scaled_data])"
    by (rule mapM_map) (simp add: first)
  then show ?thesis by (simp add: create_sequences_def comp_def)
qed

lemma prepare_data_cut:
  assumes af: "add_features env data = (data', Inr ())"
    and sv: "select_values data' feature_columns = Inr feature_data"
    and ft: "fit_transform env (scaler self) feature_data = (fitted, Inr scaled_data)"
    and shape: "map length scaled_data = map length feature_data"
    and enough: "sequence_length self \<le> nrows data"
  shows "\<exists>X y. prepare_data env self data = ((self\<lparr>scaler := fitted\<rparr>, data'), Inr (X, y)) \<and>
           length X = nrows data - sequence_length self \<and>
           length y = nrows data - sequence_length self \<and>
           (\<forall>i < nrows data - sequence_length self.
              X ! i = take (sequence_length self) (drop i scaled_data) \<and>
              length (X ! i) = sequence_length self \<and>
              y ! i = scaled_data ! (sequence_length self + i) ! 0)"
proof -
  let ?L = "sequence_length self"
  let ?n = "length scaled_data"
  let ?X = "map (\<lambda>i. slice scaled_data (i - ?L) i) [?L..<?n]"
  let ?y = "map (\<lambda>i. scaled_data ! i ! 0) [?L..<?n]"
  from select_values_shape [OF sv]
  have fd: "length feature_data = nrows data'" "\<forall>r \<in> set feature_data. length r = 5"
    by (simp_all add: feature_columns_def)
  have nd: "nrows data' = nrows data" using add_features_nrows [of env data] af by simp
  have n: "?n = nrows data"
    using map_eq_imp_length_eq [OF shape] fd(1) nd by simp
  have rows: "\<forall>r \<in> set scaled_data. r \<noteq> []"
  proof
    fix r assume "r \<in> set scaled_data"
    then obtain i where i: "i < ?n" "scaled_data ! i = r" by (auto simp: in_set_conv_nth)
    have "map length scaled_data ! i = map length feature_data ! i" using shape by simp
    then have "length r = length (feature_data ! i)"
      using i map_eq_imp_length_eq [OF shape] by simp
    also have "\<dots> = 5" using fd(2) i map_eq_imp_length_eq [OF shape] by simp
    finally show "r \<noteq> []" by auto
  qed
  have run: "prepare_data env self data = ((self\<lparr>scaler := fitted\<rparr>, data'), Inr (?X, ?y))"
    by (simp add: prepare_data_def af sv ft create_sequences_spec [OF rows])
  have win: "?X ! i = take ?L (drop i scaled_data) \<and> length (?X ! i) = ?L \<and>
             ?y ! i = scaled_data ! (?L + i) ! 0" if "i < nrows data - ?L" for i
    using that n by (simp add: slice_def add.commute)
  show ?thesis using run win n by auto
qed

text \<open>
  C7. When the feature engineering succeeds on a table of \<open>n\<close> rows and the scaler returns
  one scaled row for each of them, and \<open>n\<close> is at least \<open>sequence_length\<close>, then
  \<open>prepare_data\<close> returns \<open>X\<close> and \<open>y\<close> of the one length \<open>n - sequence_length\<close>; \<open>X[i]\<close> is
  the \<open>sequence_length\<close> consecutive scaled rows from position \<open>i\<close> on, which end just
  before position \<open>sequence_length + i\<close>, and \<open>y[i]\<close> is the first column (the scaled sales)
  of the scaled row at position \<open>sequence_length + i\<close>.
\<close>

theorem prepare_data_windows:
  assumes af: "add_features env data = (data', Inr ())"
    and sv: "select_values data' feature_columns = Inr feature_data"
    and ft: "fit_transform env (scaler self) feature_data = (fitted, Inr scaled_data)"
    and shape: "map length scaled_data = map length feature_data"
    and enough: "sequence_length self \<le> nrows data"
  shows "\<exists>X y. prepare_data env self data = ((self\<lparr>scaler := fitted\<rparr>, data'), Inr (X, y)) \<and>
           length X = nrows data - sequence_length self \<and>
           length y = nrows data - sequence_length self \<and>
           (\<forall>i < nrows data - sequence_length self.
              X ! i = take (sequence_length self) (drop i scaled_data) \<and>
              length (X ! i) = sequence_length self \<and>
              y ! i = scaled_data ! (sequence_length self + i) ! 0)"
  using assms by (rule prepare_data_cut)

theorem prepare_data_windows_witness:
  "\<exists>X y. prepare_data sample_env sample_demand_model sample_table
            = ((sample_demand_model\<lparr>scaler := sample_fitted\<rparr>, sample_prepared_table), Inr (X, y)) \<and>
         length X = 2 \<and> length y = 2 \<and>
         X ! 1 = [[1 / 3, 0, 5 / 6, 0, 1], [2 / 3, 1 / 2, 1, 0, 1]] \<and> y ! 1 = 1"
proof -
  have shape: "map length sample_scaled
     = map length [[JInt 10, JInt 5, JInt 4, JInt 1, JInt 0], [JInt 20, JInt 5, JInt 5, JInt 1, JInt 1],
            [JInt 30, JInt 6, JInt 6, JInt 1, JInt 1], [JInt 40, JInt 7, JInt 0, JInt 1, JInt 0]]"
    by (simp add: sample_scaled_def)
  have enough: "sequence_length sample_demand_model \<le> nrows sample_table"
    by (simp add: sample_demand_model_def sample_table_def)
  from prepare_data_windows [OF sample_add_features sample_select_values sample_fit shape enough]
  obtain X y where
    run: "prepare_data sample_env sample_demand_model sample_table
            = ((sample_demand_model\<lparr>scaler := sample_fitted\<rparr>, sample_prepared_table), Inr (X, y))"
    and len: "length X = nrows sample_table - sequence_length sample_demand_model"
      "length y = nrows sample_table - sequence_length sample_demand_model"
    and win: "\<forall>i < nrows sample_table - sequence_length sample_demand_model.
              X ! i = take (sequence_length sample_demand_model) (drop i sample_scaled) \<and>
              length (X ! i) = sequence_length sample_demand_model \<and>
              y ! i = sample_scaled ! (sequence_length sample_demand_model + i) ! 0"
    by blast
  have d: "nrows sample_table - sequence_length sample_demand_model = 2"
    "sequence_length sample_demand_model = 2"
    by (simp_all add: sample_demand_model_def sample_table_def)
  have "X ! 1 = take 2 (drop 1 sample_scaled) \<and> y ! 1 = sample_scaled ! (2 + 1) ! 0"
    using win [rule_format, of 1] d by simp
  then have "X ! 1 = [[1 / 3, 0, 5 / 6, 0, 1], [2 / 3, 1 / 2, 1, 0, 1]] \<and> y ! 1 = 1"
    by (simp add: sample_scaled_def)
  then show ?thesis using run len d by auto
qed

subsection \<open>The forecast loop\<close>

lemma np_roll_update: "w \<noteq> [] \<Longrightarrow> (np_roll w)[length w - Suc 0 := r] = tl w @ [r]"
  by (cases w) (simp_all add: np_roll_def list_update_append)

lemma forecast_loop_trace:
  "length ps = n \<Longrightarrow> length ws = n \<Longrightarrow> (0 < n \<longrightarrow> ws ! 0 = cur) \<Longrightarrow>
   cur \<noteq> [] \<Longrightarrow> last cur \<noteq> [] \<Longrightarrow>
   \<forall>t<n. keras_predict m (ws ! t) = Inr (ps ! t) \<Longrightarrow>
   \<forall>t. Suc t < n \<longrightarrow> ws ! Suc t = tl (ws ! t) @ [(last (ws ! t))[0 := ps ! t]] \<Longrightarrow>
   forecast_loop m n cur preds world = (world @ map Predicted ws, Inr (preds @ ps))"
proof (induction n arbitrary: ps ws cur preds world)
  case 0
  then show ?case by simp
next
  case (Suc n)
  from Suc.prems(1) obtain p ps' where ps: "ps = p # ps'" "length ps' = n"
    by (cases ps) auto
  from Suc.prems(2) obtain w ws' where ws: "ws = w # ws'" "length ws' = n"
    by (cases ws) auto
  have w: "w = cur" using Suc.prems(3) ws by simp
  have p: "keras_predict m cur = Inr p"
    using Suc.prems(6) [rule_format, of 0] ps ws w by simp
  let ?row = "(last cur)[0 := p]"
  let ?cur = "tl cur @ [?row]"
  have li: "last_item ''1'' cur = Inr (last cur)" using Suc.prems(4) by (simp add: last_item_def)
  have sf: "set_first (last cur) p = Inr ?row" using Suc.prems(5) by (simp add: set_first_def)
  have step: "forecast_loop m (Suc n) cur preds world
                = forecast_loop m n ?cur (preds @ [p]) (world @ [Predicted cur])"
    by (simp add: p li sf np_roll_update [OF Suc.prems(4)])
  have start: "0 < n \<longrightarrow> ws' ! 0 = ?cur"
    using Suc.prems(7) [rule_format, of 0] ps ws w by simp
  have 1: "?cur \<noteq> []" by simp
  have 2: "last ?cur \<noteq> []" using Suc.prems(5) by simp
  have each: "\<forall>t<n. keras_predict m (ws' ! t) = Inr (ps' ! t)"
  proof (intro allI impI)
    fix t assume "t < n"
    then show "keras_predict m (ws' ! t) = Inr (ps' ! t)"
      using Suc.prems(6) [rule_format, of "Suc t"] ps ws by simp
  qed
  have nxt: "\<forall>t. Suc t < n \<longrightarrow> ws' ! Suc t = tl (ws' ! t) @ [(last (ws' ! t))[0 := ps' ! t]]"
  proof (intro allI impI)
    fix t assume "Suc t < n"
    then show "ws' ! Suc t = tl (ws' ! t) @ [(last (ws' ! t))[0 := ps' ! t]]"
      using Suc.prems(7) [rule_format, of "Suc t"] ps ws by simp
  qed
  have "forecast_loop m n ?cur (preds @ [p]) (world @ [Predicted cur])
          = ((world @ [Predicted cur]) @ map Predicted ws', Inr ((preds @ [p]) @ ps'))"
    by (rule Suc.IH [OF ps(2) ws(2) start 1 2 each nxt])
  then show ?case using step ps ws w by simp
qed

lemma length_concat_uniform: "\<forall>r \<in> set w. length r = F \<Longrightarrow> length (concat w) = length w * F"
  by (induction w) auto

lemma chunks_concat:
  "\<forall>r \<in> set w. length r = F \<Longrightarrow>
   map (\<lambda>r. take F (drop (r * F) (concat w))) [0..<length w] = w"
proof (induction w)
  case Nil
  then show ?case by simp
next
  case (Cons a w)
  have a: "length a = F" using Cons.prems by simp
  have "map (\<lambda>r. take F (drop (r * F) (concat (a # w)))) [0..<length (a # w)]
          = take F (a @ concat w) # map (\<lambda>r. take F (drop (Suc r * F) (a @ concat w))) [0..<length w]"
    by (simp add: upt_conv_Cons map_Suc_upt [symmetric] del: upt_Suc)
  also have "\<dots> = a # map (\<lambda>r. take F (drop (r * F) (concat w))) [0..<length w]"
    using a by simp
  also have "\<dots> = a # w" using Cons by simp
  finally show ?case .
qed

lemma reshape_same:
  "length w = L \<Longrightarrow> \<forall>r \<in> set w. length r = F \<Longrightarrow> reshape w L F = Inr w"
  using chunks_concat [of w F] length_concat_uniform [of w F]
  by (simp add: reshape_def)

lemma mapM_first_item:
  "\<forall>r \<in> set Z. r \<noteq> [] \<Longrightarrow> mapM first_item Z = Inr (map (\<lambda>r. r ! 0) Z)"
proof (rule mapM_map)
  fix r assume "\<forall>r \<in> set Z. r \<noteq> []" "r \<in> set Z"
  then have "r \<noteq> []" by simp
  then show "first_item r = Inr (r ! 0)" by (cases r) (simp_all add: first_item_def)
qed

text \<open>
  C9 (as amended). Let the model hold a Keras model, with \<open>features = 5\<close> and
  \<open>sequence_length\<close> at least 1, let the table have more than \<open>sequence_length\<close> rows
  and be accepted by \<open>prepare_data\<close> (the feature engineering succeeds and the scaler
  returns one scaled row for each row), and let \<open>days_ahead\<close> be a positive integer
  \<open>d\<close>. The windows of the loop are \<open>ws ! 0\<close>, the last window that \<open>prepare_data\<close> cut,
  and for each later round the window of the round before without its first row and
  with a copy of its last row appended whose first entry is the prediction of that
  round. When the Keras model answers each of these \<open>d\<close> windows, \<open>ps ! t\<close> being its
  answer to \<open>ws ! t\<close>, and the fitted scaler inverts the \<open>d\<close> rows made of the
  predictions into an array \<open>Z\<close> of the same shape, then \<open>predict\<close> calls the Keras model
  on exactly these windows in this order, leaves the model with the fitted scaler and
  the table with its added columns, and returns the first column of \<open>Z\<close>, a list of
  exactly \<open>d\<close> values. Nothing is asked of the Keras model or of the scaler on any
  other input.
\<close>

theorem predict_feeds_back:
  assumes trained: "model self = Some m"
    and dims: "0 < sequence_length self" "features self = 5"
    and af: "add_features env data = (data', Inr ())"
    and sv: "select_values data' feature_columns = Inr feature_data"
    and ft: "fit_transform env (scaler self) feature_data = (fitted, Inr scaled_data)"
    and shape: "map length scaled_data = map length feature_data"
    and enough: "sequence_length self < nrows data"
    and days: "0 < d"
    and len: "length ps = nat d" "length ws = nat d"
    and start: "ws ! 0 = take (sequence_length self)
                           (drop (nrows data - sequence_length self - 1) scaled_data)"
    and each: "\<forall>t<nat d. keras_predict m (ws ! t) = Inr (ps ! t)"
    and nxt: "\<forall>t. Suc t < nat d \<longrightarrow>
                 ws ! Suc t = tl (ws ! t) @ [(last (ws ! t))[0 := ps ! t]]"
    and inv: "inverse_transform env fitted (map (\<lambda>p. p # replicate 4 0) ps) = Inr Z"
    and same: "map length Z = map length (map (\<lambda>p. p # replicate 4 0) ps)"
  shows "predict env self data (JInt d) world
           = ((self\<lparr>scaler := fitted\<rparr>, data', world @ map Predicted ws),
              Inr (map (\<lambda>r. r ! 0) Z)) \<and>
         int (length (map (\<lambda>r. r ! 0) Z)) = d"
proof -
  let ?L = "sequence_length self"
  let ?n = "nrows data"
  let ?self = "self\<lparr>scaler := fitted\<rparr>"
  from prepare_data_cut [OF af sv ft shape] enough
  obtain X y where pd: "prepare_data env self data = ((?self, data'), Inr (X, y))"
    and lX: "length X = ?n - ?L"
    and wins: "\<forall>i < ?n - ?L. X ! i = take ?L (drop i scaled_data) \<and> length (X ! i) = ?L"
    by auto
  have Xne: "X \<noteq> []" using lX enough by auto
  have idx: "?n - ?L - 1 < ?n - ?L" using enough by simp
  have lx: "last X = X ! (?n - ?L - 1)" using Xne lX by (simp add: last_conv_nth)
  from wins idx have w1: "X ! (?n - ?L - 1) = take ?L (drop (?n - ?L - 1) scaled_data)"
    and w2: "length (X ! (?n - ?L - 1)) = ?L" by blast+
  have lastX: "last X = take ?L (drop (?n - ?L - 1) scaled_data)" "length (last X) = ?L"
    using lx w1 w2 by metis+
  from select_values_shape [OF sv]
  have fd: "\<forall>r \<in> set feature_data. length r = 5" by (simp add: feature_columns_def)
  have srows: "\<forall>r \<in> set scaled_data. length r = 5"
  proof
    fix r assume "r \<in> set scaled_data"
    then obtain i where i: "i < length scaled_data" "scaled_data ! i = r"
      by (auto simp: in_set_conv_nth)
    have "map length scaled_data ! i = map length feature_data ! i" using shape by simp
    then have "length r = length (feature_data ! i)"
      using i map_eq_imp_length_eq [OF shape] by simp
    also have "\<dots> = 5" using fd i map_eq_imp_length_eq [OF shape] by simp
    finally show "length r = 5" .
  qed
  have wrows: "\<forall>r \<in> set (last X). length r = 5"
    using srows lastX(1) by (auto dest!: in_set_takeD in_set_dropD)
  have li: "last_item ''0'' X = Inr (last X)" using Xne by (simp add: last_item_def)
  have rs: "reshape (last X) ?L 5 = Inr (last X)"
    by (rule reshape_same [OF lastX(2) wrows])
  have cur: "last X \<noteq> []" using lastX(2) dims(1) by auto
  have lrow: "last (last X) \<noteq> []"
  proof -
    have "last (last X) \<in> set (last X)" using cur by simp
    then have "length (last (last X)) = 5" using wrows by blast
    then show ?thesis by auto
  qed
  have st: "0 < nat d \<longrightarrow> ws ! 0 = last X" using start lastX(1) by simp
  have fl: "forecast_loop m (nat d) (last X) [] world = (world @ map Predicted ws, Inr ([] @ ps))"
    by (rule forecast_loop_trace [OF len st cur lrow each nxt])
  let ?dummy = "map (\<lambda>p. p # replicate 4 0) ps"
  have da: "dummy_array 5 ps = Inr ?dummy" by (simp add: dummy_array_def)
  have lZ: "length Z = nat d" using map_eq_imp_length_eq [OF same] len by simp
  have Zrows: "\<forall>r \<in> set Z. r \<noteq> []"
  proof
    fix r assume "r \<in> set Z"
    then obtain i where i: "i < length Z" "Z ! i = r" by (auto simp: in_set_conv_nth)
    have "map length Z ! i = map length ?dummy ! i" using same by simp
    then have "length r = 5" using i lZ len by simp
    then show "r \<noteq> []" by auto
  qed
  have run: "predict env self data (JInt d) world
               = ((?self, data', world @ map Predicted ws), Inr (map (\<lambda>r. r ! 0) Z))"
    using fl by (simp add: predict_def trained pd li dims(2) rs py_range_def da inv
          mapM_first_item [OF Zrows])
  show ?thesis using run lZ days by simp
qed

theorem predict_feeds_back_witness:
  "predict sample_env sample_demand_model sample_table (JInt 3) []
     = ((sample_demand_model\<lparr>scaler := sample_fitted\<rparr>, sample_prepared_table,
         map Predicted [[[1 / 3, 0, 5 / 6, 0, 1], [2 / 3, 1 / 2, 1, 0, 1]],
                        [[2 / 3, 1 / 2, 1, 0, 1], [1 / 2, 1 / 2, 1, 0, 1]],
                        [[1 / 2, 1 / 2, 1, 0, 1], [7 / 12, 1 / 2, 1, 0, 1]]]),
        Inr [25, 55 / 2, 105 / 4])"
proof -
  let ?ps = "[1 / 2, 7 / 12, 13 / 24] :: rat list"
  let ?ws = "[[[1 / 3, 0, 5 / 6, 0, 1], [2 / 3, 1 / 2, 1, 0, 1]],
              [[2 / 3, 1 / 2, 1, 0, 1], [1 / 2, 1 / 2, 1, 0, 1]],
              [[1 / 2, 1 / 2, 1, 0, 1], [7 / 12, 1 / 2, 1, 0, 1]]] :: matrix list"
  let ?Z = "[[25, 5, 0, 1, 0], [55 / 2, 5, 0, 1, 0], [105 / 4, 5, 0, 1, 0]] :: matrix"
  have trained: "model sample_demand_model = Some (sample_keras 2)"
    and dims: "0 < sequence_length sample_demand_model" "features sample_demand_model = 5"
    and enough: "sequence_length sample_demand_model < nrows sample_table"
    by (simp_all add: sample_demand_model_def sample_table_def)
  have shape: "map length sample_scaled
     = map length [[JInt 10, JInt 5, JInt 4, JInt 1, JInt 0], [JInt 20, JInt 5, JInt 5, JInt 1, JInt 1],
            [JInt 30, JInt 6, JInt 6, JInt 1, JInt 1], [JInt 40, JInt 7, JInt 0, JInt 1, JInt 0]]"
    by (simp add: sample_scaled_def)
  have days: "(0::int) < 3" by simp
  have len: "length ?ps = nat 3" "length ?ws = nat 3" by simp_all
  have start: "?ws ! 0 = take (sequence_length sample_demand_model)
        (drop (nrows sample_table - sequence_length sample_demand_model - 1) sample_scaled)"
    by (simp add: sample_demand_model_def sample_table_def sample_scaled_def)
  have each: "\<forall>t<nat 3. keras_predict (sample_keras 2) (?ws ! t) = Inr (?ps ! t)"
    by (simp add: sample_keras_def All_less_Suc2 eval_nat_numeral)
  have nxt: "\<forall>t. Suc t < nat 3 \<longrightarrow>
               ?ws ! Suc t = tl (?ws ! t) @ [(last (?ws ! t))[0 := ?ps ! t]]"
    by (simp add: less_Suc_eq eval_nat_numeral)
  have inv: "inverse_transform sample_env sample_fitted (map (\<lambda>p. p # replicate 4 0) ?ps) = Inr ?Z"
    by (simp add: sample_env_def sample_inverse_transform_def sample_fitted_def eval_nat_numeral)
  have same: "map length ?Z = map length (map (\<lambda>p. p # replicate 4 0) ?ps)"
    by simp
  from predict_feeds_back [OF trained dims sample_add_features sample_select_values
      sample_fit [of "scaler sample_demand_model"] shape enough days len start each nxt inv same,
      of "[]"]
  show ?thesis by simp
qed

text \<open>
  Three calls of \<open>predict\<close> on a model that holds a Keras model, with tables that
  \<open>prepare_data\<close> accepts, which raise instead of returning a list. With two rows and
  \<open>sequence_length = 2\<close>, \<open>prepare_data\<close> cuts no window and \<^verbatim>\<open>X[-1]\<close> raises. With
  \<open>features = 3\<close> the last window of five columns cannot be reshaped. With
  \<open>sequence_length = 0\<close> and a Keras model that answers the empty window, the window
  has no last row to copy.
\<close>

theorem predict_raises_on_accepted_tables:
  "prepare_data sample_env sample_demand_model sample_short_table
     = ((sample_demand_model\<lparr>scaler := [(''data_min_'', [10, 5, 4, 1, 0]),
                                          (''data_max_'', [20, 5, 5, 1, 1])]\<rparr>,
         \<lparr>nrows = 2,
          cols = [(''date'', map JStr [''2024-01-05'', ''2024-01-06'']),
                  (''sales'', map JInt [10, 20]),
                  (''price'', map JInt [5, 5]),
                  (''day_of_week'', map JInt [4, 5]),
                  (''month'', map JInt [1, 1]),
                  (''is_weekend'', map JInt [0, 1]),
                  (''is_holiday'', map JInt [0, 0])]\<rparr>),
        Inr ([], [])) \<and>
   model sample_demand_model = Some (sample_keras 2) \<and>
   predict sample_env sample_demand_model sample_short_table (JInt 7) []
     = ((sample_demand_model\<lparr>scaler := [(''data_min_'', [10, 5, 4, 1, 0]),
                                          (''data_max_'', [20, 5, 5, 1, 1])]\<rparr>,
         \<lparr>nrows = 2,
          cols = [(''date'', map JStr [''2024-01-05'', ''2024-01-06'']),
                  (''sales'', map JInt [10, 20]),
                  (''price'', map JInt [5, 5]),
                  (''day_of_week'', map JInt [4, 5]),
                  (''month'', map JInt [1, 1]),
                  (''is_weekend'', map JInt [0, 1]),
                  (''is_holiday'', map JInt [0, 0])]\<rparr>,
         []),
        Inl (IndexError ''index -1 is out of bounds for axis 0 with size 0'')) \<and>
   predict sample_env (sample_demand_model\<lparr>features := 3\<rparr>) sample_table (JInt 7) []
     = ((sample_demand_model\<lparr>features := 3, scaler := sample_fitted\<rparr>, sample_prepared_table, []),
        Inl (ValueError ''cannot reshape array'')) \<and>
   keras_predict (sample_keras 0) [] = Inr 0 \<and>
   predict sample_env
       (sample_demand_model\<lparr>sequence_length := 0, model := Some (sample_keras 0)\<rparr>)
       sample_table (JInt 7) []
     = ((sample_demand_model\<lparr>sequence_length := 0, model := Some (sample_keras 0),
                              scaler := sample_fitted\<rparr>, sample_prepared_table,
         [Predicted []]),
        Inl (IndexError ''index -1 is out of bounds for axis 1 with size 0''))"
proof -
  let ?T = "\<lparr>nrows = 2,
             cols = [(''date'', map JStr [''2024-01-05'', ''2024-01-06'']),
                     (''sales'', map JInt [10, 20]),
                     (''price'', map JInt [5, 5]),
                     (''day_of_week'', map JInt [4, 5]),
                     (''month'', map JInt [1, 1]),
                     (''is_weekend'', map JInt [0, 1]),
                     (''is_holiday'', map JInt [0, 0])]\<rparr>"
  let ?F = "[[JInt 10, JInt 5, JInt 4, JInt 1, JInt 0], [JInt 20, JInt 5, JInt 5, JInt 1, JInt 1]]"
  let ?S = "[(''data_min_'', [10, 5, 4, 1, 0]), (''data_max_'', [20, 5, 5, 1, 1])] :: minmax_scaler"
  have af: "add_features sample_env sample_short_table = (?T, Inr ())" by code_simp
  have sv: "select_values ?T feature_columns = Inr ?F" by code_simp
  have ft: "fit_transform sample_env old ?F = (?S, Inr [[0, 0, 0, 0, 0], [1, 0, 1, 0, 1]])" for old
    by (simp add: sample_env_def sample_fit_transform_def number_def)
  have cs: "create_sequences 2 [[0, 0, 0, 0, 0], [1, 0, 1, 0, 1]] = Inr ([], [])"
    by (simp add: create_sequences_def)
  have pd: "prepare_data sample_env sample_demand_model sample_short_table
     = ((sample_demand_model\<lparr>scaler := ?S\<rparr>, ?T), Inr ([], []))"
    using af sv ft cs by (simp add: prepare_data_def sample_demand_model_def)
  have m: "model sample_demand_model = Some (sample_keras 2)"
    by (simp add: sample_demand_model_def)
  have pr: "predict sample_env sample_demand_model sample_short_table (JInt 7) []
     = ((sample_demand_model\<lparr>scaler := ?S\<rparr>, ?T, []),
        Inl (IndexError ''index -1 is out of bounds for axis 0 with size 0''))"
    using pd m by (simp add: predict_def last_item_def)
  have cs2: "create_sequences 2 sample_scaled
               = Inr ([take 2 sample_scaled, take 2 (drop 1 sample_scaled)], [2 / 3, 1])"
    by code_simp
  have pd3: "prepare_data sample_env (sample_demand_model\<lparr>features := 3\<rparr>) sample_table
     = ((sample_demand_model\<lparr>features := 3, scaler := sample_fitted\<rparr>, sample_prepared_table),
        Inr ([take 2 sample_scaled, take 2 (drop 1 sample_scaled)], [2 / 3, 1]))"
    using sample_add_features sample_select_values sample_fit cs2
    by (simp add: prepare_data_def sample_demand_model_def)
  have rs3: "reshape (take 2 (drop 1 sample_scaled)) 2 3 = Inl (ValueError ''cannot reshape array'')"
    by code_simp
  have f3: "predict sample_env (sample_demand_model\<lparr>features := 3\<rparr>) sample_table (JInt 7) []
     = ((sample_demand_model\<lparr>features := 3, scaler := sample_fitted\<rparr>, sample_prepared_table, []),
        Inl (ValueError ''cannot reshape array''))"
    using pd3 rs3 by (simp add: predict_def last_item_def sample_demand_model_def)
  have cs0: "create_sequences 0 sample_scaled = Inr ([[], [], [], []], [0, 1 / 3, 2 / 3, 1])"
    by code_simp
  have pd0: "prepare_data sample_env
               (sample_demand_model\<lparr>sequence_length := 0, model := Some (sample_keras 0)\<rparr>)
               sample_table
     = ((sample_demand_model\<lparr>sequence_length := 0, model := Some (sample_keras 0),
                              scaler := sample_fitted\<rparr>, sample_prepared_table),
        Inr ([[], [], [], []], [0, 1 / 3, 2 / 3, 1]))"
    using sample_add_features sample_select_values sample_fit cs0
    by (simp add: prepare_data_def sample_demand_model_def)
  have rs0: "reshape [] 0 5 = Inr []"
    by code_simp
  have k0: "keras_predict (sample_keras 0) [] = Inr 0"
    by (simp add: sample_keras_def)
  have fl0: "forecast_loop (sample_keras 0) 7 [] [] []
               = ([Predicted []], Inl (IndexError ''index -1 is out of bounds for axis 1 with size 0''))"
    by code_simp
  have l0: "predict sample_env
       (sample_demand_model\<lparr>sequence_length := 0, model := Some (sample_keras 0)\<rparr>)
       sample_table (JInt 7) []
     = ((sample_demand_model\<lparr>sequence_length := 0, model := Some (sample_keras 0),
                              scaler := sample_fitted\<rparr>, sample_prepared_table,
         [Predicted []]),
        Inl (IndexError ''index -1 is out of bounds for axis 1 with size 0''))"
    using pd0 rs0 fl0 by (simp add: predict_def last_item_def py_range_def sample_demand_model_def)
  show ?thesis using pd m pr f3 k0 l0 by (intro conjI)
qed

subsection \<open>What feature preparation changes\<close>

lemma length_align [simp]: "length (align n v) = n"
  by (simp add: align_def)

lemma align_same: "length v = n \<Longrightarrow> align n v = v"
  by (simp add: align_def)

lemma column_set_column:
  "column (set_column d c v) c' = (if c' = c then Inr (align (nrows d) v) else column d c')"
  by (simp add: column_def set_column_def update_conv')

lemma map_of_set_column:
  "map_of (cols (set_column d c v)) c' = (if c' = c then Some (align (nrows d) v) else map_of (cols d) c')"
  by (simp add: set_column_def update_conv')

lemma set_column_same: "map_of (cols d) c = Some (align (nrows d) v) \<Longrightarrow> set_column d c v = d"
  by (simp add: set_column_def update_triv)

lemma add_features_paths:
  "add_features env data =
     (case column data ''date'' of
        Inl e \<Rightarrow> (data, Inl e)
      | Inr date \<Rightarrow>
      (case dt_dayofweek env date of
        Inl e \<Rightarrow> (data, Inl e)
      | Inr dow \<Rightarrow>
      (case dt_month env date of
        Inl e \<Rightarrow> (set_column data ''day_of_week'' dow, Inl e)
      | Inr mon \<Rightarrow>
          (set_column
             (set_column
                (set_column (set_column data ''day_of_week'' dow) ''month'' mon)
                ''is_weekend'' (map isin_5_6 (align (nrows data) dow)))
             ''is_holiday''
             (case map_of (cols data) ''is_holiday'' of
                Some v \<Rightarrow> v
              | None \<Rightarrow> replicate (nrows data) (JInt 0)),
           Inr ()))))"
  by (simp add: add_features_def Let_def column_set_column map_of_set_column
        split: sum.splits option.splits)

lemma add_features_other_columns:
  "c \<notin> {''day_of_week'', ''month'', ''is_weekend'', ''is_holiday''} \<Longrightarrow>
   map_of (cols (fst (add_features env data))) c = map_of (cols data) c"
  by (simp add: add_features_paths map_of_set_column split: sum.splits)

lemma add_features_again:
  "add_features env (fst (add_features env data)) = add_features env data"
proof (cases "column data ''date''")
  case (Inl e)
  then show ?thesis by (simp add: add_features_paths)
next
  case date: (Inr date)
  show ?thesis
  proof (cases "dt_dayofweek env date")
    case (Inl e)
    then show ?thesis using date by (simp add: add_features_paths)
  next
    case dow: (Inr dow)
    show ?thesis
    proof (cases "dt_month env date")
      case (Inl e)
      let ?d = "set_column data ''day_of_week'' dow"
      have first: "add_features env data = (?d, Inl e)"
        using date dow Inl by (simp add: add_features_paths)
      have c: "column ?d ''date'' = Inr date" by (simp add: column_set_column date)
      have s: "set_column ?d ''day_of_week'' dow = ?d"
        by (rule set_column_same) (simp add: map_of_set_column)
      have "add_features env ?d = (?d, Inl e)"
        using c dow Inl s by (simp add: add_features_paths)
      then show ?thesis using first by simp
    next
      case mon: (Inr mon)
      let ?n = "nrows data"
      let ?hol = "case map_of (cols data) ''is_holiday'' of
                    Some v \<Rightarrow> v | None \<Rightarrow> replicate ?n (JInt 0)"
      let ?d = "set_column
                  (set_column
                     (set_column (set_column data ''day_of_week'' dow) ''month'' mon)
                     ''is_weekend'' (map isin_5_6 (align ?n dow)))
                  ''is_holiday'' ?hol"
      have first: "add_features env data = (?d, Inr ())"
        using date dow mon by (simp add: add_features_paths)
      have n: "nrows ?d = ?n" by simp
      have c: "column ?d ''date'' = Inr date" by (simp add: column_set_column date)
      have s1: "set_column ?d ''day_of_week'' dow = ?d"
        by (rule set_column_same) (simp add: map_of_set_column)
      have s2: "set_column ?d ''month'' mon = ?d"
        by (rule set_column_same) (simp add: map_of_set_column)
      have s3: "set_column ?d ''is_weekend'' (map isin_5_6 (align ?n dow)) = ?d"
        by (rule set_column_same) (simp add: map_of_set_column)
      have h: "map_of (cols ?d) ''is_holiday'' = Some (align ?n ?hol)"
        by (simp add: map_of_set_column)
      have s4: "set_column ?d ''is_holiday'' (align ?n ?hol) = ?d"
        by (rule set_column_same) (simp add: h align_same)
      have "add_features env ?d = (?d, Inr ())"
        unfolding add_features_paths [of env ?d] c n by (simp add: dow mon s1 s2 s3 h s4)
      then show ?thesis using first by simp
    qed
  qed
qed

lemma prepare_data_table:
  "snd (fst (prepare_data env self data)) = fst (add_features env data)"
  by (auto simp: prepare_data_def split: prod.splits sum.splits)

lemma prepare_data_fields:
  "sequence_length (fst (fst (prepare_data env self data))) = sequence_length self \<and>
   features (fst (fst (prepare_data env self data))) = features self \<and>
   model (fst (fst (prepare_data env self data))) = model self"
  by (auto simp: prepare_data_def split: prod.splits sum.splits)

lemma prepare_data_early:
  "add_features env data = (t, Inl e) \<Longrightarrow> prepare_data env self data = ((self, t), Inl e)"
  by (simp add: prepare_data_def)

lemma prepare_data_late:
  "add_features env data = (t, Inr ()) \<Longrightarrow>
   prepare_data env self data =
     (case select_values t feature_columns of
        Inl e \<Rightarrow> ((self, t), Inl e)
      | Inr feature_data \<Rightarrow>
          ((self\<lparr>scaler := fst (fit_transform env (scaler self) feature_data)\<rparr>, t),
           (case snd (fit_transform env (scaler self) feature_data) of
              Inl e \<Rightarrow> Inl e
            | Inr scaled_data \<Rightarrow> create_sequences (sequence_length self) scaled_data)))"
  by (auto simp: prepare_data_def split: prod.splits sum.splits)

text \<open>
  C5 (as amended). \<open>prepare_features\<close> leaves the model and its input as they were,
  whether it returns or raises; what it returns or raises does not depend on the model,
  and a second call gives the same. \<open>prepare_data\<close> does not. Whatever its outcome, it
  changes no field of the model but the scaler, not the number of rows and no column
  but \<open>day_of_week\<close>, \<open>month\<close>, \<open>is_weekend\<close> and \<open>is_holiday\<close>. When reading or
  parsing the dates raises, the table and the model are as they were; when the second
  parsing raises, the table has got \<open>day_of_week\<close> already. Otherwise the table gets all
  four columns: the two parts of the dates, the flag of the days 5 and 6, and the
  \<open>is_holiday\<close> column it had or zeros. When selecting the five feature columns of this
  table then raises, the model is as it was and the four columns stay. Otherwise the
  scaler of the model becomes the one that \<open>fit_transform\<close> leaves when it is called on
  the model's scaler with the feature rows of this table, also when \<open>fit_transform\<close> or
  the cutting of the windows raises, and the result is the windows and targets cut
  from the rows it scaled. When \<open>fit_transform\<close> forgets the earlier state of the scaler
  it is called on, the outcome and the table left do not depend on the scaler found
  (nor does the model left, once the scaler is refitted), and a second call on the
  model and the table as the first call left them has the same outcome and changes
  nothing.
\<close>

theorem feature_preparation_effects:
  "(prepare_features env hm df = ((hm', df'), r) \<longrightarrow>
      hm' = hm \<and> df' = df \<and>
      (\<forall>other. snd (prepare_features env other df) = r) \<and>
      prepare_features env hm' df' = ((hm', df'), r)) \<and>
   (prepare_data env self data = ((self', data'), out) \<longrightarrow>
      sequence_length self' = sequence_length self \<and> features self' = features self \<and>
      model self' = model self \<and>
      nrows data' = nrows data \<and>
      (\<forall>c. c \<notin> {''day_of_week'', ''month'', ''is_weekend'', ''is_holiday''} \<longrightarrow>
           map_of (cols data') c = map_of (cols data) c) \<and>
      (\<forall>e. column data ''date'' = Inl e \<longrightarrow> data' = data \<and> self' = self \<and> out = Inl e) \<and>
      (\<forall>date e. column data ''date'' = Inr date \<and> dt_dayofweek env date = Inl e \<longrightarrow>
           data' = data \<and> self' = self \<and> out = Inl e) \<and>
      (\<forall>date dow e. column data ''date'' = Inr date \<and> dt_dayofweek env date = Inr dow \<and>
           dt_month env date = Inl e \<longrightarrow>
           data' = set_column data ''day_of_week'' dow \<and> self' = self \<and> out = Inl e) \<and>
      (\<forall>date dow mon. column data ''date'' = Inr date \<and> dt_dayofweek env date = Inr dow \<and>
           dt_month env date = Inr mon \<longrightarrow>
           data' = set_column
                     (set_column
                        (set_column (set_column data ''day_of_week'' dow) ''month'' mon)
                        ''is_weekend'' (map isin_5_6 (align (nrows data) dow)))
                     ''is_holiday''
                     (case map_of (cols data) ''is_holiday'' of
                        Some v \<Rightarrow> v
                      | None \<Rightarrow> replicate (nrows data) (JInt 0)) \<and>
           map_of (cols data') ''day_of_week'' = Some (align (nrows data) dow) \<and>
           map_of (cols data') ''month'' = Some (align (nrows data) mon) \<and>
           map_of (cols data') ''is_weekend'' = Some (map isin_5_6 (align (nrows data) dow)) \<and>
           map_of (cols data') ''is_holiday''
             = Some (case map_of (cols data) ''is_holiday'' of
                       Some v \<Rightarrow> align (nrows data) v
                     | None \<Rightarrow> replicate (nrows data) (JInt 0)) \<and>
           (\<forall>e. select_values data' feature_columns = Inl e \<longrightarrow> self' = self \<and> out = Inl e) \<and>
           (\<forall>feature_data. select_values data' feature_columns = Inr feature_data \<longrightarrow>
              self' = self\<lparr>scaler := fst (fit_transform env (scaler self) feature_data)\<rparr> \<and>
              out = (case snd (fit_transform env (scaler self) feature_data) of
                       Inl e \<Rightarrow> Inl e
                     | Inr scaled_data \<Rightarrow> create_sequences (sequence_length self) scaled_data) \<and>
              ((\<forall>s s' F. fit_transform env s F = fit_transform env s' F) \<longrightarrow>
                 (\<forall>other. prepare_data env (self\<lparr>scaler := other\<rparr>) data
                            = ((self', data'), out))))) \<and>
      ((\<forall>s s' F. fit_transform env s F = fit_transform env s' F) \<longrightarrow>
         (\<forall>other. snd (prepare_data env (self\<lparr>scaler := other\<rparr>) data) = out \<and>
                  snd (fst (prepare_data env (self\<lparr>scaler := other\<rparr>) data)) = data') \<and>
         prepare_data env self' data' = ((self', data'), out)))"
proof -
  have a: "hm' = hm \<and> df' = df \<and>
      (\<forall>other. snd (prepare_features env other df) = r) \<and>
      prepare_features env hm' df' = ((hm', df'), r)"
    if pf: "prepare_features env hm df = ((hm', df'), r)"
  proof -
    have f: "hm' = hm" "df' = df" using prepare_features_frame [of env hm df] pf by simp_all
    have o: "snd (prepare_features env other df) = r" for other
      using prepare_features_result [of env other df hm] pf by simp
    show ?thesis using f o pf by simp
  qed
  have b: "sequence_length self' = sequence_length self \<and> features self' = features self \<and>
      model self' = model self \<and>
      nrows data' = nrows data \<and>
      (\<forall>c. c \<notin> {''day_of_week'', ''month'', ''is_weekend'', ''is_holiday''} \<longrightarrow>
           map_of (cols data') c = map_of (cols data) c) \<and>
      (\<forall>e. column data ''date'' = Inl e \<longrightarrow> data' = data \<and> self' = self \<and> out = Inl e) \<and>
      (\<forall>date e. column data ''date'' = Inr date \<and> dt_dayofweek env date = Inl e \<longrightarrow>
           data' = data \<and> self' = self \<and> out = Inl e) \<and>
      (\<forall>date dow e. column data ''date'' = Inr date \<and> dt_dayofweek env date = Inr dow \<and>
           dt_month env date = Inl e \<longrightarrow>
           data' = set_column data ''day_of_week'' dow \<and> self' = self \<and> out = Inl e) \<and>
      (\<forall>date dow mon. column data ''date'' = Inr date \<and> dt_dayofweek env date = Inr dow \<and>
           dt_month env date = Inr mon \<longrightarrow>
           data' = set_column
                     (set_column
                        (set_column (set_column data ''day_of_week'' dow) ''month'' mon)
                        ''is_weekend'' (map isin_5_6 (align (nrows data) dow)))
                     ''is_holiday''
                     (case map_of (cols data) ''is_holiday'' of
                        Some v \<Rightarrow> v
                      | None \<Rightarrow> replicate (nrows data) (JInt 0)) \<and>
           map_of (cols data') ''day_of_week'' = Some (align (nrows data) dow) \<and>
           map_of (cols data') ''month'' = Some (align (nrows data) mon) \<and>
           map_of (cols data') ''is_weekend'' = Some (map isin_5_6 (align (nrows data) dow)) \<and>
           map_of (cols data') ''is_holiday''
             = Some (case map_of (cols data) ''is_holiday'' of
                       Some v \<Rightarrow> align (nrows data) v
                     | None \<Rightarrow> replicate (nrows data) (JInt 0)) \<and>
           (\<forall>e. select_values data' feature_columns = Inl e \<longrightarrow> self' = self \<and> out = Inl e) \<and>
           (\<forall>feature_data. select_values data' feature_columns = Inr feature_data \<longrightarrow>
              self' = self\<lparr>scaler := fst (fit_transform env (scaler self) feature_data)\<rparr> \<and>
              out = (case snd (fit_transform env (scaler self) feature_data) of
                       Inl e \<Rightarrow> Inl e
                     | Inr scaled_data \<Rightarrow> create_sequences (sequence_length self) scaled_data) \<and>
              ((\<forall>s s' F. fit_transform env s F = fit_transform env s' F) \<longrightarrow>
                 (\<forall>other. prepare_data env (self\<lparr>scaler := other\<rparr>) data
                            = ((self', data'), out))))) \<and>
      ((\<forall>s s' F. fit_transform env s F = fit_transform env s' F) \<longrightarrow>
         (\<forall>other. snd (prepare_data env (self\<lparr>scaler := other\<rparr>) data) = out \<and>
                  snd (fst (prepare_data env (self\<lparr>scaler := other\<rparr>) data)) = data') \<and>
         prepare_data env self' data' = ((self', data'), out))"
    if pd: "prepare_data env self data = ((self', data'), out)"
  proof -
    have tab: "data' = fst (add_features env data)"
      using prepare_data_table [of env self data] pd by simp
    have 1: "sequence_length self' = sequence_length self" "features self' = features self"
      "model self' = model self"
      using prepare_data_fields [of env self data] pd by simp_all
    have 2: "nrows data' = nrows data" using add_features_nrows [of env data] tab by simp
    have 3: "\<forall>c. c \<notin> {''day_of_week'', ''month'', ''is_weekend'', ''is_holiday''} \<longrightarrow>
           map_of (cols data') c = map_of (cols data) c"
      using add_features_other_columns [of _ env data] tab by blast
    have t0: "data' = data \<and> self' = self \<and> out = Inl e" if "column data ''date'' = Inl e" for e
    proof -
      have "add_features env data = (data, Inl e)" using that by (simp add: add_features_paths)
      from prepare_data_early [OF this, of self] pd show ?thesis by simp
    qed
    have t1: "data' = data \<and> self' = self \<and> out = Inl e"
      if "column data ''date'' = Inr date \<and> dt_dayofweek env date = Inl e" for date e
    proof -
      have "add_features env data = (data, Inl e)" using that by (simp add: add_features_paths)
      from prepare_data_early [OF this, of self] pd show ?thesis by simp
    qed
    have t2: "data' = set_column data ''day_of_week'' dow \<and> self' = self \<and> out = Inl e"
      if "column data ''date'' = Inr date \<and> dt_dayofweek env date = Inr dow \<and>
          dt_month env date = Inl e" for date dow e
    proof -
      have "add_features env data = (set_column data ''day_of_week'' dow, Inl e)"
        using that by (simp add: add_features_paths)
      from prepare_data_early [OF this, of self] pd show ?thesis by simp
    qed
    have late: "(\<forall>e. select_values data' feature_columns = Inl e \<longrightarrow> self' = self \<and> out = Inl e) \<and>
           (\<forall>feature_data. select_values data' feature_columns = Inr feature_data \<longrightarrow>
              self' = self\<lparr>scaler := fst (fit_transform env (scaler self) feature_data)\<rparr> \<and>
              out = (case snd (fit_transform env (scaler self) feature_data) of
                       Inl e \<Rightarrow> Inl e
                     | Inr scaled_data \<Rightarrow> create_sequences (sequence_length self) scaled_data) \<and>
              ((\<forall>s s' F. fit_transform env s F = fit_transform env s' F) \<longrightarrow>
                 (\<forall>other. prepare_data env (self\<lparr>scaler := other\<rparr>) data
                            = ((self', data'), out))))"
      if af: "add_features env data = (data', Inr ())"
    proof -
      have l1: "self' = self \<and> out = Inl e" if "select_values data' feature_columns = Inl e" for e
        using prepare_data_late [OF af, of self] pd that by simp
      have l2: "self' = self\<lparr>scaler := fst (fit_transform env (scaler self) feature_data)\<rparr> \<and>
              out = (case snd (fit_transform env (scaler self) feature_data) of
                       Inl e \<Rightarrow> Inl e
                     | Inr scaled_data \<Rightarrow> create_sequences (sequence_length self) scaled_data) \<and>
              ((\<forall>s s' F. fit_transform env s F = fit_transform env s' F) \<longrightarrow>
                 (\<forall>other. prepare_data env (self\<lparr>scaler := other\<rparr>) data
                            = ((self', data'), out)))"
        if sv: "select_values data' feature_columns = Inr feature_data" for feature_data
      proof -
        have s: "self' = self\<lparr>scaler := fst (fit_transform env (scaler self) feature_data)\<rparr>"
          and o: "out = (case snd (fit_transform env (scaler self) feature_data) of
                       Inl e \<Rightarrow> Inl e
                     | Inr scaled_data \<Rightarrow> create_sequences (sequence_length self) scaled_data)"
          using prepare_data_late [OF af, of self] pd sv by simp_all
        have i: "prepare_data env (self\<lparr>scaler := other\<rparr>) data = ((self', data'), out)"
          if forgets: "\<forall>s s' F. fit_transform env s F = fit_transform env s' F" for other
        proof -
          have "fit_transform env other feature_data = fit_transform env (scaler self) feature_data"
            using forgets by blast
          then show ?thesis
            using prepare_data_late [OF af, of "self\<lparr>scaler := other\<rparr>"] sv s o
            by (simp split: sum.splits)
        qed
        show ?thesis using s o i by blast
      qed
      show ?thesis using l1 l2 by blast
    qed
    have t3: "data' = set_column
                     (set_column
                        (set_column (set_column data ''day_of_week'' dow) ''month'' mon)
                        ''is_weekend'' (map isin_5_6 (align (nrows data) dow)))
                     ''is_holiday''
                     (case map_of (cols data) ''is_holiday'' of
                        Some v \<Rightarrow> v
                      | None \<Rightarrow> replicate (nrows data) (JInt 0)) \<and>
           map_of (cols data') ''day_of_week'' = Some (align (nrows data) dow) \<and>
           map_of (cols data') ''month'' = Some (align (nrows data) mon) \<and>
           map_of (cols data') ''is_weekend'' = Some (map isin_5_6 (align (nrows data) dow)) \<and>
           map_of (cols data') ''is_holiday''
             = Some (case map_of (cols data) ''is_holiday'' of
                       Some v \<Rightarrow> align (nrows data) v
                     | None \<Rightarrow> replicate (nrows data) (JInt 0)) \<and>
           (\<forall>e. select_values data' feature_columns = Inl e \<longrightarrow> self' = self \<and> out = Inl e) \<and>
           (\<forall>feature_data. select_values data' feature_columns = Inr feature_data \<longrightarrow>
              self' = self\<lparr>scaler := fst (fit_transform env (scaler self) feature_data)\<rparr> \<and>
              out = (case snd (fit_transform env (scaler self) feature_data) of
                       Inl e \<Rightarrow> Inl e
                     | Inr scaled_data \<Rightarrow> create_sequences (sequence_length self) scaled_data) \<and>
              ((\<forall>s s' F. fit_transform env s F = fit_transform env s' F) \<longrightarrow>
                 (\<forall>other. prepare_data env (self\<lparr>scaler := other\<rparr>) data
                            = ((self', data'), out))))"
      if c: "column data ''date'' = Inr date \<and> dt_dayofweek env date = Inr dow \<and>
          dt_month env date = Inr mon" for date dow mon
    proof -
      let ?d = "set_column
                     (set_column
                        (set_column (set_column data ''day_of_week'' dow) ''month'' mon)
                        ''is_weekend'' (map isin_5_6 (align (nrows data) dow)))
                     ''is_holiday''
                     (case map_of (cols data) ''is_holiday'' of
                        Some v \<Rightarrow> v
                      | None \<Rightarrow> replicate (nrows data) (JInt 0))"
      have af: "add_features env data = (?d, Inr ())" using c by (simp add: add_features_paths)
      have d: "data' = ?d" using tab af by simp
      have c1: "map_of (cols ?d) ''day_of_week'' = Some (align (nrows data) dow)"
        by (simp add: map_of_set_column)
      have c2: "map_of (cols ?d) ''month'' = Some (align (nrows data) mon)"
        by (simp add: map_of_set_column)
      have c3: "map_of (cols ?d) ''is_weekend'' = Some (map isin_5_6 (align (nrows data) dow))"
        by (simp add: map_of_set_column align_same)
      have c4: "map_of (cols ?d) ''is_holiday''
             = Some (case map_of (cols data) ''is_holiday'' of
                       Some v \<Rightarrow> align (nrows data) v
                     | None \<Rightarrow> replicate (nrows data) (JInt 0))"
        by (simp add: map_of_set_column align_same split: option.splits)
      have af': "add_features env data = (data', Inr ())" using af d by simp
      show ?thesis using d c1 c2 c3 c4 late [OF af'] by simp
    qed
    have g: "(\<forall>other. snd (prepare_data env (self\<lparr>scaler := other\<rparr>) data) = out \<and>
                  snd (fst (prepare_data env (self\<lparr>scaler := other\<rparr>) data)) = data') \<and>
         prepare_data env self' data' = ((self', data'), out)"
      if forgets: "\<forall>s s' F. fit_transform env s F = fit_transform env s' F"
    proof -
      obtain res where af: "add_features env data = (data', res)"
        using tab by (cases "add_features env data") simp
      have again: "add_features env data' = (data', res)"
        using add_features_again [of env data] af by simp
      show ?thesis
      proof (cases res)
        case (Inl e)
        have p: "prepare_data env s data = ((s, data'), Inl e)" for s
          using prepare_data_early [of env data data' e s] af Inl by simp
        have q: "prepare_data env s data' = ((s, data'), Inl e)" for s
          using prepare_data_early [of env data' data' e s] again Inl by simp
        have "self' = self" "out = Inl e" using p [of self] pd by simp_all
        then show ?thesis using p q by simp
      next
        case (Inr u)
        have af1: "add_features env data = (data', Inr ())" using af Inr by simp
        have af2: "add_features env data' = (data', Inr ())" using again Inr by simp
        show ?thesis
        proof (cases "select_values data' feature_columns")
          case (Inl e)
          have p: "prepare_data env s data = ((s, data'), Inl e)" for s
            using prepare_data_late [OF af1, of s] Inl by simp
          have q: "prepare_data env s data' = ((s, data'), Inl e)" for s
            using prepare_data_late [OF af2, of s] Inl by simp
          have "self' = self" "out = Inl e" using p [of self] pd by simp_all
          then show ?thesis using p q by simp
        next
          case sv: (Inr feature_data)
          have same: "fit_transform env s feature_data = fit_transform env (scaler self) feature_data"
            for s using forgets by blast
          have s: "self' = self\<lparr>scaler := fst (fit_transform env (scaler self) feature_data)\<rparr>"
            and o: "out = (case snd (fit_transform env (scaler self) feature_data) of
                       Inl e \<Rightarrow> Inl e
                     | Inr scaled_data \<Rightarrow> create_sequences (sequence_length self) scaled_data)"
            using prepare_data_late [OF af1, of self] pd sv by simp_all
          have p: "prepare_data env (self\<lparr>scaler := other\<rparr>) data = ((self', data'), out)" for other
            using prepare_data_late [OF af1, of "self\<lparr>scaler := other\<rparr>"] sv s o
            by (simp add: same [of other] split: sum.splits)
          have q: "prepare_data env self' data' = ((self', data'), out)"
            using prepare_data_late [OF af2, of self'] sv o
            by (simp add: s same [of "fst (fit_transform env (scaler self) feature_data)"]
                  split: sum.splits)
          show ?thesis using p q by simp
        qed
      qed
    qed
    show ?thesis using 1 2 3 t0 t1 t2 t3 g by blast
  qed
  show ?thesis using a b by blast
qed

theorem feature_preparation_effects_witness:
  "prepare_features sample_env sample_health_model sample_frame
     = ((sample_health_model, sample_frame),
        Inr \<lparr>columns = [''age'', ''gender_male'', ''gender_female'', ''history_diabetes'',
                        ''history_hypertension'', ''history_heart_disease'', ''history_asthma'',
                        ''temperature'', ''blood_pressure_systolic'', ''blood_pressure_diastolic'',
                        ''heart_rate'', ''respiratory_rate''],
             records = map (\<lambda>(a, h). [JInt a, JInt 0, JInt 0, JInt 0, JInt 0, JInt 0, JInt 0,
                                        JInt 0, JInt 0, JInt 0, JInt h, JInt 0])
                         [(30, 20), (50, 70), (90, 90), (60, 190)]\<rparr>) \<and>
   snd (prepare_features sample_env (sample_health_model\<lparr>models := []\<rparr>) sample_frame)
     = Inr \<lparr>columns = [''age'', ''gender_male'', ''gender_female'', ''history_diabetes'',
                        ''history_hypertension'', ''history_heart_disease'', ''history_asthma'',
                        ''temperature'', ''blood_pressure_systolic'', ''blood_pressure_diastolic'',
                        ''heart_rate'', ''respiratory_rate''],
             records = map (\<lambda>(a, h). [JInt a, JInt 0, JInt 0, JInt 0, JInt 0, JInt 0, JInt 0,
                                        JInt 0, JInt 0, JInt 0, JInt h, JInt 0])
                         [(30, 20), (50, 70), (90, 90), (60, 190)]\<rparr> \<and>
   prepare_data sample_env sample_demand_model sample_table
     = ((sample_demand_model\<lparr>scaler := sample_fitted\<rparr>, sample_prepared_table),
        Inr ([take 2 sample_scaled, take 2 (drop 1 sample_scaled)], [2 / 3, 1])) \<and>
   prepare_data sample_env (sample_demand_model\<lparr>scaler := [(''data_min_'', [0])]\<rparr>) sample_table
     = ((sample_demand_model\<lparr>scaler := sample_fitted\<rparr>, sample_prepared_table),
        Inr ([take 2 sample_scaled, take 2 (drop 1 sample_scaled)], [2 / 3, 1])) \<and>
   prepare_data sample_env (sample_demand_model\<lparr>scaler := sample_fitted\<rparr>) sample_prepared_table
     = ((sample_demand_model\<lparr>scaler := sample_fitted\<rparr>, sample_prepared_table),
        Inr ([take 2 sample_scaled, take 2 (drop 1 sample_scaled)], [2 / 3, 1])) \<and>
   prepare_data sample_env sample_demand_model
       \<lparr>nrows = 2,
          cols = [(''date'', map JStr [''2024-01-05'', ''2024-01-06'']),
                  (''sales'', map JInt [10, 20])]\<rparr>
     = ((sample_demand_model,
         \<lparr>nrows = 2,
          cols = [(''date'', map JStr [''2024-01-05'', ''2024-01-06'']),
                  (''sales'', map JInt [10, 20]),
                  (''day_of_week'', map JInt [4, 5]),
                  (''month'', map JInt [1, 1]),
                  (''is_weekend'', map JInt [0, 1]),
                  (''is_holiday'', map JInt [0, 0])]\<rparr>),
        Inl (KeyError (quoted ''price''))) \<and>
   prepare_data sample_env sample_demand_model
       \<lparr>nrows = 2,
          cols = [(''sales'', map JInt [10, 20]),
                  (''price'', map JInt [5, 5])]\<rparr>
     = ((sample_demand_model,
         \<lparr>nrows = 2,
          cols = [(''sales'', map JInt [10, 20]),
                  (''price'', map JInt [5, 5])]\<rparr>),
        Inl (KeyError (quoted ''date''))) \<and>
   prepare_data sample_env sample_demand_model
       \<lparr>nrows = 2,
          cols = [(''date'', map JStr [''yesterday'', ''2024-01-06'']),
                  (''sales'', map JInt [10, 20]),
                  (''price'', map JInt [5, 5])]\<rparr>
     = ((sample_demand_model,
         \<lparr>nrows = 2,
          cols = [(''date'', map JStr [''yesterday'', ''2024-01-06'']),
                  (''sales'', map JInt [10, 20]),
                  (''price'', map JInt [5, 5])]\<rparr>),
        Inl (ValueError ''Unknown datetime string format, unable to parse: yesterday'')) \<and>
   prepare_data (sample_env\<lparr>dt_month := (\<lambda>dates. Inl (LibraryError ''month''))\<rparr>)
       sample_demand_model sample_short_table
     = ((sample_demand_model,
         \<lparr>nrows = 2,
          cols = [(''date'', map JStr [''2024-01-05'', ''2024-01-06'']),
                  (''sales'', map JInt [10, 20]),
                  (''price'', map JInt [5, 5]),
                  (''day_of_week'', map JInt [4, 5])]\<rparr>),
        Inl (LibraryError ''month''))"
proof -
  let ?X = "\<lparr>columns = [''age'', ''gender_male'', ''gender_female'', ''history_diabetes'',
                        ''history_hypertension'', ''history_heart_disease'', ''history_asthma'',
                        ''temperature'', ''blood_pressure_systolic'', ''blood_pressure_diastolic'',
                        ''heart_rate'', ''respiratory_rate''],
             records = map (\<lambda>(a, h). [JInt a, JInt 0, JInt 0, JInt 0, JInt 0, JInt 0, JInt 0,
                                        JInt 0, JInt 0, JInt 0, JInt h, JInt 0])
                         [(30, 20), (50, 70), (90, 90), (60, 190)]\<rparr>"
  let ?F = "[[JInt 10, JInt 5, JInt 4, JInt 1, JInt 0], [JInt 20, JInt 5, JInt 5, JInt 1, JInt 1],
            [JInt 30, JInt 6, JInt 6, JInt 1, JInt 1], [JInt 40, JInt 7, JInt 0, JInt 1, JInt 0]]"
  let ?noprice = "\<lparr>nrows = 2,
          cols = [(''date'', map JStr [''2024-01-05'', ''2024-01-06'']),
                  (''sales'', map JInt [10, 20])]\<rparr>"
  let ?noprice' = "\<lparr>nrows = 2,
          cols = [(''date'', map JStr [''2024-01-05'', ''2024-01-06'']),
                  (''sales'', map JInt [10, 20]),
                  (''day_of_week'', map JInt [4, 5]),
                  (''month'', map JInt [1, 1]),
                  (''is_weekend'', map JInt [0, 1]),
                  (''is_holiday'', map JInt [0, 0])]\<rparr>"
  let ?nodate = "\<lparr>nrows = 2,
          cols = [(''sales'', map JInt [10, 20]),
                  (''price'', map JInt [5, 5])]\<rparr>"
  let ?baddate = "\<lparr>nrows = 2,
          cols = [(''date'', map JStr [''yesterday'', ''2024-01-06'']),
                  (''sales'', map JInt [10, 20]),
                  (''price'', map JInt [5, 5])]\<rparr>"
  let ?short' = "\<lparr>nrows = 2,
          cols = [(''date'', map JStr [''2024-01-05'', ''2024-01-06'']),
                  (''sales'', map JInt [10, 20]),
                  (''price'', map JInt [5, 5]),
                  (''day_of_week'', map JInt [4, 5])]\<rparr>"
  let ?env2 = "(sample_env\<lparr>dt_month := (\<lambda>dates. Inl (LibraryError ''month''))\<rparr>)"
  let ?date = "map JStr [''2024-01-05'', ''2024-01-06'', ''2024-01-07'', ''2024-01-01'']"
  let ?date2 = "map JStr [''2024-01-05'', ''2024-01-06'']"
  obtain hm' df' r where
    pf: "prepare_features sample_env sample_health_model sample_frame = ((hm', df'), r)"
    by (metis surj_pair)
  have px: "snd (prepare_features sample_env sample_health_model sample_frame) = Inr ?X"
    by code_simp
  have r: "r = Inr ?X" using pf px by simp
  have forgets: "\<forall>s s' F. fit_transform sample_env s F = fit_transform sample_env s' F"
    using sample_fit_forgets by blast
  have cs: "create_sequences 2 sample_scaled
              = Inr ([take 2 sample_scaled, take 2 (drop 1 sample_scaled)], [2 / 3, 1])"
    by code_simp
  obtain s1 t1 o1 where
    pd1: "prepare_data sample_env sample_demand_model sample_table = ((s1, t1), o1)"
    by (metis surj_pair)
  note T1 = feature_preparation_effects [of sample_env sample_health_model sample_frame hm' df' r
      sample_demand_model sample_table s1 t1 o1]
  note H = T1 [THEN conjunct1, THEN mp, OF pf]
  have h1: "hm' = sample_health_model" "df' = sample_frame" using H by blast+
  have h2: "snd (prepare_features sample_env (sample_health_model\<lparr>models := []\<rparr>) sample_frame) = r"
    using H by blast
  note D1 = T1 [THEN conjunct2, THEN mp, OF pd1]
  have date1: "column sample_table ''date'' = Inr ?date" by code_simp
  have dow1: "dt_dayofweek sample_env ?date = Inr (map JInt [4, 5, 6, 0])" by code_simp
  have mon1: "dt_month sample_env ?date = Inr (map JInt [1, 1, 1, 1])" by code_simp
  have tbl1: "set_column
                (set_column
                   (set_column (set_column sample_table ''day_of_week'' (map JInt [4, 5, 6, 0]))
                      ''month'' (map JInt [1, 1, 1, 1]))
                   ''is_weekend'' (map isin_5_6 (align (nrows sample_table) (map JInt [4, 5, 6, 0]))))
                ''is_holiday''
                (case map_of (cols sample_table) ''is_holiday'' of
                   Some v \<Rightarrow> v
                 | None \<Rightarrow> replicate (nrows sample_table) (JInt 0))
              = sample_prepared_table"
    by code_simp
  note S1 = D1 [THEN conjunct2, THEN conjunct2, THEN conjunct2, THEN conjunct2, THEN conjunct2, THEN conjunct2, THEN conjunct2, THEN conjunct2, THEN conjunct1, rule_format,
      OF conjI [OF date1 conjI [OF dow1 mon1]]]
  have t1: "t1 = sample_prepared_table" using S1 [THEN conjunct1] tbl1 by simp
  have sv1: "select_values t1 feature_columns = Inr ?F" using t1 sample_select_values by simp
  note R1 = S1 [THEN conjunct2, THEN conjunct2, THEN conjunct2, THEN conjunct2, THEN conjunct2, THEN conjunct2, rule_format, OF sv1]
  have s1: "s1 = sample_demand_model\<lparr>scaler := sample_fitted\<rparr>"
    using R1 [THEN conjunct1] sample_fit [of "scaler sample_demand_model"] by simp
  have o1: "o1 = Inr ([take 2 sample_scaled, take 2 (drop 1 sample_scaled)], [2 / 3, 1])"
    using R1 [THEN conjunct2, THEN conjunct1] sample_fit [of "scaler sample_demand_model"] cs
    by (simp add: sample_demand_model_def)
  have ind: "prepare_data sample_env (sample_demand_model\<lparr>scaler := [(''data_min_'', [0])]\<rparr>) sample_table = ((s1, t1), o1)"
    using R1 [THEN conjunct2, THEN conjunct2, THEN mp, OF forgets] by blast
  have idem: "prepare_data sample_env s1 t1 = ((s1, t1), o1)"
    using D1 [THEN conjunct2, THEN conjunct2, THEN conjunct2, THEN conjunct2, THEN conjunct2, THEN conjunct2, THEN conjunct2, THEN conjunct2, THEN conjunct2, THEN mp, OF forgets] by blast
  obtain s2 t2 o2 where
    pd2: "prepare_data sample_env sample_demand_model ?noprice = ((s2, t2), o2)"
    by (metis surj_pair)
  note D2 = feature_preparation_effects [of sample_env sample_health_model sample_frame hm' df' r
      sample_demand_model ?noprice s2 t2 o2, THEN conjunct2, THEN mp, OF pd2]
  have date2: "column ?noprice ''date'' = Inr ?date2" by code_simp
  have dow2: "dt_dayofweek sample_env ?date2 = Inr (map JInt [4, 5])" by code_simp
  have mon2: "dt_month sample_env ?date2 = Inr (map JInt [1, 1])" by code_simp
  have tbl2: "set_column
                (set_column
                   (set_column (set_column ?noprice ''day_of_week'' (map JInt [4, 5]))
                      ''month'' (map JInt [1, 1]))
                   ''is_weekend'' (map isin_5_6 (align (nrows ?noprice) (map JInt [4, 5]))))
                ''is_holiday''
                (case map_of (cols ?noprice) ''is_holiday'' of
                   Some v \<Rightarrow> v
                 | None \<Rightarrow> replicate (nrows ?noprice) (JInt 0))
              = ?noprice'"
    by code_simp
  note S2 = D2 [THEN conjunct2, THEN conjunct2, THEN conjunct2, THEN conjunct2, THEN conjunct2, THEN conjunct2, THEN conjunct2, THEN conjunct2, THEN conjunct1, rule_format,
      OF conjI [OF date2 conjI [OF dow2 mon2]]]
  have t2: "t2 = ?noprice'" using S2 [THEN conjunct1] tbl2 by simp
  have sel2: "select_values ?noprice' feature_columns = Inl (KeyError (quoted ''price''))"
    by code_simp
  have sv2: "select_values t2 feature_columns = Inl (KeyError (quoted ''price''))"
    using t2 sel2 by simp
  note R2 = S2 [THEN conjunct2, THEN conjunct2, THEN conjunct2, THEN conjunct2, THEN conjunct2, THEN conjunct1, rule_format, OF sv2]
  obtain s3 t3 o3 where
    pd3: "prepare_data sample_env sample_demand_model ?nodate = ((s3, t3), o3)"
    by (metis surj_pair)
  note D3 = feature_preparation_effects [of sample_env sample_health_model sample_frame hm' df' r
      sample_demand_model ?nodate s3 t3 o3, THEN conjunct2, THEN mp, OF pd3]
  have date3: "column ?nodate ''date'' = Inl (KeyError (quoted ''date''))" by code_simp
  note R3 = D3 [THEN conjunct2, THEN conjunct2, THEN conjunct2, THEN conjunct2, THEN conjunct2, THEN conjunct1, rule_format, OF date3]
  obtain s4 t4 o4 where
    pd4: "prepare_data sample_env sample_demand_model ?baddate = ((s4, t4), o4)"
    by (metis surj_pair)
  note D4 = feature_preparation_effects [of sample_env sample_health_model sample_frame hm' df' r
      sample_demand_model ?baddate s4 t4 o4, THEN conjunct2, THEN mp, OF pd4]
  have date4: "column ?baddate ''date'' = Inr (map JStr [''yesterday'', ''2024-01-06''])"
    by code_simp
  have dow4: "dt_dayofweek sample_env (map JStr [''yesterday'', ''2024-01-06''])
                = Inl (ValueError ''Unknown datetime string format, unable to parse: yesterday'')"
    by code_simp
  note R4 = D4 [THEN conjunct2, THEN conjunct2, THEN conjunct2, THEN conjunct2, THEN conjunct2, THEN conjunct2, THEN conjunct1, rule_format, OF conjI [OF date4 dow4]]
  obtain s5 t5 o5 where
    pd5: "prepare_data ?env2 sample_demand_model sample_short_table = ((s5, t5), o5)"
    by (metis surj_pair)
  note D5 = feature_preparation_effects [of ?env2 sample_health_model sample_frame hm' df' r
      sample_demand_model sample_short_table s5 t5 o5, THEN conjunct2, THEN mp, OF pd5]
  have date5: "column sample_short_table ''date'' = Inr ?date2" by code_simp
  have dow5: "dt_dayofweek ?env2 ?date2 = Inr (map JInt [4, 5])"
    using dow2 by simp
  have mon5: "dt_month ?env2 ?date2 = Inl (LibraryError ''month'')" by simp
  have tbl5: "set_column sample_short_table ''day_of_week'' (map JInt [4, 5]) = ?short'"
    by code_simp
  note R5 = D5 [THEN conjunct2, THEN conjunct2, THEN conjunct2, THEN conjunct2, THEN conjunct2, THEN conjunct2, THEN conjunct2, THEN conjunct1, rule_format,
      OF conjI [OF date5 conjI [OF dow5 mon5]]]
  have t5: "t5 = ?short'" using R5 [THEN conjunct1] tbl5 by simp
  have a: "prepare_features sample_env sample_health_model sample_frame
             = ((sample_health_model, sample_frame), Inr ?X)"
    using pf h1 r by simp
  have b: "snd (prepare_features sample_env (sample_health_model\<lparr>models := []\<rparr>) sample_frame)
             = Inr ?X"
    using h2 r by simp
  have c: "prepare_data sample_env sample_demand_model sample_table
     = ((sample_demand_model\<lparr>scaler := sample_fitted\<rparr>, sample_prepared_table),
        Inr ([take 2 sample_scaled, take 2 (drop 1 sample_scaled)], [2 / 3, 1]))"
    using pd1 s1 t1 o1 by simp
  have d: "prepare_data sample_env (sample_demand_model\<lparr>scaler := [(''data_min_'', [0])]\<rparr>) sample_table
     = ((sample_demand_model\<lparr>scaler := sample_fitted\<rparr>, sample_prepared_table),
        Inr ([take 2 sample_scaled, take 2 (drop 1 sample_scaled)], [2 / 3, 1]))"
    using ind s1 t1 o1 by simp
  have e: "prepare_data sample_env (sample_demand_model\<lparr>scaler := sample_fitted\<rparr>) sample_prepared_table
     = ((sample_demand_model\<lparr>scaler := sample_fitted\<rparr>, sample_prepared_table),
        Inr ([take 2 sample_scaled, take 2 (drop 1 sample_scaled)], [2 / 3, 1]))"
    using idem s1 t1 o1 by simp
  have f: "prepare_data sample_env sample_demand_model ?noprice
     = ((sample_demand_model, ?noprice'), Inl (KeyError (quoted ''price'')))"
    using pd2 t2 R2 by simp
  have g: "prepare_data sample_env sample_demand_model ?nodate
     = ((sample_demand_model, ?nodate), Inl (KeyError (quoted ''date'')))"
    using pd3 R3 by simp
  have h: "prepare_data sample_env sample_demand_model ?baddate
     = ((sample_demand_model, ?baddate), Inl (ValueError ''Unknown datetime string format, unable to parse: yesterday''))"
    using pd4 R4 by simp
  have i: "prepare_data ?env2 sample_demand_model sample_short_table
     = ((sample_demand_model, ?short'), Inl (LibraryError ''month''))"
    using pd5 t5 R5 by simp
  show ?thesis using a b c d e f g h i by (intro conjI)
qed

text \<open>
  On the sample table \<open>prepare_data\<close> changes both objects: the scaler, which had no
  attribute and raised before the call, has its ranges and inverts a row after it, and
  the table has seven columns instead of three. On a table without a \<open>price\<close> column
  the call raises, and the table has got the four columns all the same.
\<close>

theorem prepare_data_changes_model_and_table:
  "prepare_data sample_env sample_demand_model sample_table
     = ((sample_demand_model\<lparr>scaler := sample_fitted\<rparr>, sample_prepared_table),
        Inr ([take 2 sample_scaled, take 2 (drop 1 sample_scaled)], [2 / 3, 1])) \<and>
   scaler sample_demand_model = [] \<and>
   sample_fitted = [(''data_min_'', [10, 5, 0, 1, 0]), (''data_max_'', [40, 7, 6, 1, 1])] \<and>
   inverse_transform sample_env (scaler sample_demand_model) [[0, 0, 0, 0, 0]]
     = Inl (not_fitted ''MinMaxScaler'') \<and>
   inverse_transform sample_env (scaler (sample_demand_model\<lparr>scaler := sample_fitted\<rparr>)) [[0, 0, 0, 0, 0]]
     = Inr [[10, 5, 0, 1, 0]] \<and>
   sample_demand_model\<lparr>scaler := sample_fitted\<rparr> \<noteq> sample_demand_model \<and>
   map fst (cols sample_table) = [''date'', ''sales'', ''price''] \<and>
   map fst (cols sample_prepared_table)
     = [''date'', ''sales'', ''price'', ''day_of_week'', ''month'', ''is_weekend'', ''is_holiday''] \<and>
   sample_prepared_table \<noteq> sample_table \<and>
   prepare_data sample_env sample_demand_model
       \<lparr>nrows = 2,
          cols = [(''date'', map JStr [''2024-01-05'', ''2024-01-06'']),
                  (''sales'', map JInt [10, 20])]\<rparr>
     = ((sample_demand_model,
         \<lparr>nrows = 2,
          cols = [(''date'', map JStr [''2024-01-05'', ''2024-01-06'']),
                  (''sales'', map JInt [10, 20]),
                  (''day_of_week'', map JInt [4, 5]),
                  (''month'', map JInt [1, 1]),
                  (''is_weekend'', map JInt [0, 1]),
                  (''is_holiday'', map JInt [0, 0])]\<rparr>),
        Inl (KeyError (quoted ''price'')))"
proof -
  let ?noprice = "\<lparr>nrows = 2,
          cols = [(''date'', map JStr [''2024-01-05'', ''2024-01-06'']),
                  (''sales'', map JInt [10, 20])]\<rparr>"
  let ?noprice' = "\<lparr>nrows = 2,
          cols = [(''date'', map JStr [''2024-01-05'', ''2024-01-06'']),
                  (''sales'', map JInt [10, 20]),
                  (''day_of_week'', map JInt [4, 5]),
                  (''month'', map JInt [1, 1]),
                  (''is_weekend'', map JInt [0, 1]),
                  (''is_holiday'', map JInt [0, 0])]\<rparr>"
  have cs: "create_sequences 2 sample_scaled
              = Inr ([take 2 sample_scaled, take 2 (drop 1 sample_scaled)], [2 / 3, 1])"
    by code_simp
  have pd: "prepare_data sample_env sample_demand_model sample_table
     = ((sample_demand_model\<lparr>scaler := sample_fitted\<rparr>, sample_prepared_table),
        Inr ([take 2 sample_scaled, take 2 (drop 1 sample_scaled)], [2 / 3, 1]))"
    using sample_add_features sample_select_values sample_fit cs
    by (simp add: prepare_data_def sample_demand_model_def)
  have s0: "scaler sample_demand_model = []"
    by (simp add: sample_demand_model_def MinMaxScaler_def)
  have s1: "sample_fitted = [(''data_min_'', [10, 5, 0, 1, 0]), (''data_max_'', [40, 7, 6, 1, 1])]"
    by (simp add: sample_fitted_def)
  have before: "inverse_transform sample_env (scaler sample_demand_model) [[0, 0, 0, 0, 0]]
     = Inl (not_fitted ''MinMaxScaler'')"
    by (simp add: s0 sample_env_def sample_inverse_transform_def)
  have after: "inverse_transform sample_env (scaler (sample_demand_model\<lparr>scaler := sample_fitted\<rparr>)) [[0, 0, 0, 0, 0]]
     = Inr [[10, 5, 0, 1, 0]]"
    by (simp add: sample_env_def sample_inverse_transform_def sample_fitted_def)
  have neq: "sample_demand_model\<lparr>scaler := sample_fitted\<rparr> \<noteq> sample_demand_model"
  proof
    assume "sample_demand_model\<lparr>scaler := sample_fitted\<rparr> = sample_demand_model"
    then have "scaler (sample_demand_model\<lparr>scaler := sample_fitted\<rparr>) = scaler sample_demand_model"
      by (rule arg_cong)
    then show False by (simp add: s0 s1)
  qed
  have k1: "map fst (cols sample_table) = [''date'', ''sales'', ''price'']"
    by (simp add: sample_table_def)
  have k2: "map fst (cols sample_prepared_table)
     = [''date'', ''sales'', ''price'', ''day_of_week'', ''month'', ''is_weekend'', ''is_holiday'']"
    by (simp add: sample_prepared_table_def)
  have tneq: "sample_prepared_table \<noteq> sample_table"
  proof
    assume "sample_prepared_table = sample_table"
    then have "length (map fst (cols sample_prepared_table)) = length (map fst (cols sample_table))"
      by (rule arg_cong)
    then show False unfolding k1 k2 by simp
  qed
  have af: "add_features sample_env ?noprice = (?noprice', Inr ())" by code_simp
  have sv: "select_values ?noprice' feature_columns = Inl (KeyError (quoted ''price''))"
    by code_simp
  have raised: "prepare_data sample_env sample_demand_model ?noprice
     = ((sample_demand_model, ?noprice'), Inl (KeyError (quoted ''price'')))"
    using af sv by (simp add: prepare_data_def)
  show ?thesis using pd s0 s1 before after neq k1 k2 tneq raised by (intro conjI)
qed

section \<open>Guards of both modules\<close>

text \<open>
  C8. A forecasting model as its constructor returns it has no Keras model. On a
  forecasting model without a Keras model, \<open>predict\<close> and \<open>save_model\<close> raise a
  ValueError and leave the effects on the world as they were: no prediction, no local
  write and no upload has happened; \<open>predict\<close> leaves the model and the table as they
  were, too. On a diagnosis model whose collection of models is
  empty, \<open>predict_ensemble\<close> and \<open>predict_proba_ensemble\<close> raise a ValueError.
\<close>

theorem untrained_models_raise:
  "(DemandForecastingModel env L F = Inr fresh \<longrightarrow> model fresh = None) \<and>
   (model self = None \<longrightarrow>
      predict env self data days_ahead world
        = ((self, data, world), Inl (ValueError ''Model not trained. Call train() first.'')) \<and>
      save_model env self s3_bucket model_key world
        = (world, Inl (ValueError ''No model to save''))) \<and>
   (models hm = [] \<longrightarrow>
      predict_ensemble hm X = Inl (ValueError ''Models not trained'') \<and>
      predict_proba_ensemble env hm X = Inl (ValueError ''Models not trained''))"
  by (auto simp: DemandForecastingModel_def predict_def save_model_def predict_ensemble_def
        predict_proba_ensemble_def split: option.splits)

theorem untrained_models_raise_witness:
  "DemandForecastingModel sample_env 30 5
     = Inr \<lparr>sequence_length = 30, features = 5, model = None, scaler = MinMaxScaler\<rparr> \<and>
   predict sample_env \<lparr>sequence_length = 30, features = 5, model = None, scaler = MinMaxScaler\<rparr>
       sample_table (JInt 7) []
     = ((\<lparr>sequence_length = 30, features = 5, model = None, scaler = MinMaxScaler\<rparr>,
         sample_table, []),
        Inl (ValueError ''Model not trained. Call train() first.'')) \<and>
   save_model sample_env \<lparr>sequence_length = 30, features = 5, model = None, scaler = MinMaxScaler\<rparr>
       ''bharat-ai-hub-models'' ''demand-forecasting/model.h5'' []
     = ([], Inl (ValueError ''No model to save'')) \<and>
   models (sample_health_model\<lparr>models := []\<rparr>) = [] \<and>
   predict_ensemble (sample_health_model\<lparr>models := []\<rparr>) sample_frame
     = Inl (ValueError ''Models not trained'') \<and>
   predict_proba_ensemble sample_env (sample_health_model\<lparr>models := []\<rparr>) sample_frame
     = Inl (ValueError ''Models not trained'')"
proof -
  let ?fresh = "\<lparr>sequence_length = 30, features = 5, model = None, scaler = MinMaxScaler\<rparr>"
  have c: "DemandForecastingModel sample_env 30 5 = Inr ?fresh"
    by (simp add: DemandForecastingModel_def sample_env_def)
  have n: "model ?fresh = None" by simp
  have e: "models (sample_health_model\<lparr>models := []\<rparr>) = []" by simp
  from untrained_models_raise [of sample_env 30 5 ?fresh ?fresh sample_table "JInt 7" "[]"
      "''bharat-ai-hub-models''" "''demand-forecasting/model.h5''"
      "sample_health_model\<lparr>models := []\<rparr>" sample_frame] c n e
  show ?thesis by blast
qed

subsection \<open>The handlers catch every exception\<close>

lemma demand_try_block_200:
  "demand_try_block env event = Inr r \<Longrightarrow> statusCode r = 200 \<and> (\<exists>j. body r = json_dumps env j)"
  by (auto simp: demand_try_block_def split: sum.splits prod.splits)

lemma health_try_block_200:
  "health_try_block env event = Inr r \<Longrightarrow> statusCode r = 200 \<and> (\<exists>j. body r = json_dumps env j)"
  by (auto simp: health_try_block_def split: sum.splits)

text \<open>
  C3. Each of the two handlers returns a response for every event and raises nothing.
  When a step of its \<open>try\<close> block raises an exception \<open>e\<close>, the response has status 500
  and its body is the JSON object with \<open>str(e)\<close> under \<open>error\<close> and the time under
  \<open>timestamp\<close>; when no step raises, the response is the one the block built, with
  status 200 and a JSON body.
\<close>

theorem lambda_handlers_catch_all:
  "(\<exists>r. demand_lambda_handler env event = Inr r) \<and>
   (\<forall>e. demand_try_block env event = Inl e \<longrightarrow>
      demand_lambda_handler env event
        = Inr \<lparr>statusCode = 500,
               body = json_dumps env (JObj [(''error'', JStr (str_exn e)),
                                            (''timestamp'', JStr (now_isoformat env))])\<rparr>) \<and>
   (\<forall>r. demand_try_block env event = Inr r \<longrightarrow>
      demand_lambda_handler env event = Inr r \<and> statusCode r = 200 \<and>
      (\<exists>j. body r = json_dumps env j)) \<and>
   (\<exists>r. health_lambda_handler env event = Inr r) \<and>
   (\<forall>e. health_try_block env event = Inl e \<longrightarrow>
      health_lambda_handler env event
        = Inr \<lparr>statusCode = 500,
               body = json_dumps env (JObj [(''error'', JStr (str_exn e)),
                                            (''timestamp'', JStr (now_isoformat env))])\<rparr>) \<and>
   (\<forall>r. health_try_block env event = Inr r \<longrightarrow>
      health_lambda_handler env event = Inr r \<and> statusCode r = 200 \<and>
      (\<exists>j. body r = json_dumps env j))"
proof -
  have d1: "\<exists>r. demand_lambda_handler env event = Inr r"
    by (cases "demand_try_block env event") (simp_all add: demand_lambda_handler_def try_except_def)
  have h1: "\<exists>r. health_lambda_handler env event = Inr r"
    by (cases "health_try_block env event") (simp_all add: health_lambda_handler_def try_except_def)
  have d2: "demand_lambda_handler env event
        = Inr \<lparr>statusCode = 500,
               body = json_dumps env (JObj [(''error'', JStr (str_exn e)),
                                            (''timestamp'', JStr (now_isoformat env))])\<rparr>"
    if "demand_try_block env event = Inl e" for e
    using that by (simp add: demand_lambda_handler_def try_except_def error_response_def)
  have h2: "health_lambda_handler env event
        = Inr \<lparr>statusCode = 500,
               body = json_dumps env (JObj [(''error'', JStr (str_exn e)),
                                            (''timestamp'', JStr (now_isoformat env))])\<rparr>"
    if "health_try_block env event = Inl e" for e
    using that by (simp add: health_lambda_handler_def try_except_def error_response_def)
  have d3: "demand_lambda_handler env event = Inr r \<and> statusCode r = 200 \<and>
      (\<exists>j. body r = json_dumps env j)" if "demand_try_block env event = Inr r" for r
    using that demand_try_block_200 [OF that]
    by (simp add: demand_lambda_handler_def try_except_def)
  have h3: "health_lambda_handler env event = Inr r \<and> statusCode r = 200 \<and>
      (\<exists>j. body r = json_dumps env j)" if "health_try_block env event = Inr r" for r
    using that health_try_block_200 [OF that]
    by (simp add: health_lambda_handler_def try_except_def)
  show ?thesis using d1 d2 d3 h1 h2 h3 by blast
qed

theorem lambda_handlers_catch_all_witness:
  "demand_try_block sample_env (JObj [(''body'', JStr (json_text sample_request))])
     = Inr \<lparr>statusCode = 200,
            body = json_dumps sample_env
                     (JObj [(''predictions'', JArr [JFloat (29 / 2), JFloat (899 / 60)]),
                            (''model_version'', JStr ''1.0.0''),
                            (''timestamp'', JStr (now_isoformat sample_env))])\<rparr> \<and>
   demand_lambda_handler sample_env (JObj [(''body'', JStr (json_text sample_request))])
     = Inr \<lparr>statusCode = 200,
            body = json_dumps sample_env
                     (JObj [(''predictions'', JArr [JFloat (29 / 2), JFloat (899 / 60)]),
                            (''model_version'', JStr ''1.0.0''),
                            (''timestamp'', JStr (now_isoformat sample_env))])\<rparr> \<and>
   demand_try_block sample_env (JObj []) = Inl (KeyError (quoted ''body'')) \<and>
   demand_lambda_handler sample_env (JObj [])
     = Inr \<lparr>statusCode = 500,
            body = json_dumps sample_env
                     (JObj [(''error'', JStr (str_exn (KeyError (quoted ''body'')))),
                            (''timestamp'', JStr (now_isoformat sample_env))])\<rparr> \<and>
   health_try_block sample_env (JObj [(''body'', JNull)])
     = Inl (TypeError ''the JSON object must be str, bytes or bytearray, not NoneType'') \<and>
   health_lambda_handler sample_env (JObj [(''body'', JNull)])
     = Inr \<lparr>statusCode = 500,
            body = json_dumps sample_env
                     (JObj [(''error'', JStr (str_exn (TypeError
                               ''the JSON object must be str, bytes or bytearray, not NoneType''))),
                            (''timestamp'', JStr (now_isoformat sample_env))])\<rparr>"
proof -
  let ?ok = "\<lparr>statusCode = 200,
            body = json_dumps sample_env
                     (JObj [(''predictions'', JArr [JFloat (29 / 2), JFloat (899 / 60)]),
                            (''model_version'', JStr ''1.0.0''),
                            (''timestamp'', JStr (now_isoformat sample_env))])\<rparr>"
  have t1: "demand_try_block sample_env (JObj [(''body'', JStr (json_text sample_request))]) = Inr ?ok"
    by code_simp
  have t2: "demand_try_block sample_env (JObj []) = Inl (KeyError (quoted ''body''))"
    by (simp add: demand_try_block_def)
  have t3: "health_try_block sample_env (JObj [(''body'', JNull)])
     = Inl (TypeError ''the JSON object must be str, bytes or bytearray, not NoneType'')"
    by (simp add: health_try_block_def loads_def)
  show ?thesis
    using lambda_handlers_catch_all [of sample_env "JObj [(''body'', JStr (json_text sample_request))]"]
      lambda_handlers_catch_all [of sample_env "JObj []"]
      lambda_handlers_catch_all [of sample_env "JObj [(''body'', JNull)]"]
      t1 t2 t3
    by simp
qed

end
